theory Spec2Isabelle
  imports Main
begin

section \<open>Data model: the SQLAlchemy models of app.py\<close>

text \<open>
  A \<^verbatim>\<open>datetime\<close> is a reading of the UTC clock, counted in clock ticks. A Python
  \<^verbatim>\<open>float\<close> is a binary floating-point number, \<open>Float m e\<close> for \<open>m * 2 ^ e\<close>; no
  modelled handler computes with one.
\<close>

type_synonym datetime = int

datatype float = Float int int

text \<open>class User (app.py, lines 31-49).\<close>

record user =
  u_id :: int
  u_email :: string
  u_password_hash :: string
  u_nome :: string
  u_created_at :: datetime

text \<open>class Grupo (lines 52-67).\<close>

record grupo =
  g_id :: int
  g_nome :: string
  g_descricao :: string
  g_codigo_acesso :: string
  g_admin_id :: int
  g_data_evento :: "datetime option"
  g_local_evento :: "string option"
  g_valor_minimo :: "float option"
  g_valor_maximo :: "float option"
  g_created_at :: datetime

text \<open>class MembroGrupo (lines 103-110).\<close>

record membro_grupo =
  m_id :: int
  m_usuario_id :: int
  m_grupo_id :: int
  m_data_ingresso :: datetime

text \<open>
  class SorteioIndividual (lines 113-125). \<^verbatim>\<open>data_sorteio\<close> and
  \<^verbatim>\<open>vezes_visualizado\<close> have column defaults (the clock, 0) and the only
  constructor call passes \<^verbatim>\<open>token_acesso\<close>, so the three are never NULL;
  \<^verbatim>\<open>ultima_visualizacao\<close> has no default and starts as NULL.
\<close>

record sorteio_individual =
  s_id :: int
  s_usuario_id :: int
  s_grupo_id :: int
  s_amigo_sorteado_id :: int
  s_data_sorteio :: datetime
  s_ultima_visualizacao :: "datetime option"
  s_vezes_visualizado :: int
  s_token_acesso :: string

text \<open>class SugestaoPresente (lines 133-143).\<close>

record sugestao_presente =
  sg_id :: int
  sg_grupo_id :: int
  sg_usuario_id :: int
  sg_descricao :: string
  sg_link :: "string option"
  sg_created_at :: datetime
  sg_updated_at :: datetime

text \<open>The database: one list of rows per table, in insertion order.\<close>

record db =
  users :: "user list"
  grupos :: "grupo list"
  membros :: "membro_grupo list"
  sorteios :: "sorteio_individual list"
  sugestoes :: "sugestao_presente list"

definition empty_db :: db where
  "empty_db = \<lparr>users = [], grupos = [], membros = [], sorteios = [], sugestoes = []\<rparr>"

section \<open>Queries\<close>

text \<open>
  \<^verbatim>\<open>Model.query.get(id)\<close> and \<^verbatim>\<open>query.filter_by(...).first()\<close> give the first
  matching row or None; \<^verbatim>\<open>.all()\<close> gives every matching row.
\<close>

definition user_get :: "db \<Rightarrow> int \<Rightarrow> user option" where
  "user_get d i = find (\<lambda>u. u_id u = i) (users d)"

definition grupo_get :: "db \<Rightarrow> int \<Rightarrow> grupo option" where
  "grupo_get d i = find (\<lambda>g. g_id g = i) (grupos d)"

definition membro_query :: "db \<Rightarrow> int \<Rightarrow> int \<Rightarrow> membro_grupo option" where
  "membro_query d usuario_id grupo_id =
     find (\<lambda>m. m_usuario_id m = usuario_id \<and> m_grupo_id m = grupo_id) (membros d)"

definition sorteio_query :: "db \<Rightarrow> int \<Rightarrow> int \<Rightarrow> sorteio_individual option" where
  "sorteio_query d usuario_id grupo_id =
     find (\<lambda>s. s_usuario_id s = usuario_id \<and> s_grupo_id s = grupo_id) (sorteios d)"

definition sorteio_by_token :: "db \<Rightarrow> string \<Rightarrow> sorteio_individual option" where
  "sorteio_by_token d token = find (\<lambda>s. s_token_acesso s = token) (sorteios d)"

definition membros_do_grupo :: "db \<Rightarrow> int \<Rightarrow> membro_grupo list" where
  "membros_do_grupo d grupo_id = filter (\<lambda>m. m_grupo_id m = grupo_id) (membros d)"

text \<open>
  The primary key of a new row: one more than the largest key of the table (no modelled
  table ever loses a row).
\<close>

definition next_id :: "int list \<Rightarrow> int" where
  "next_id ids = fold max ids 0 + 1"

text \<open>
  \<^verbatim>\<open>load_user\<close> (lines 146-148) and \<^verbatim>\<open>current_user\<close>: the session holds a user id or
  nothing; the current user is that row of the User table, if there is one.
\<close>

definition current_user :: "db \<Rightarrow> int option \<Rightarrow> user option" where
  "current_user d session = (case session of None \<Rightarrow> None | Some user_id \<Rightarrow> user_get d user_id)"

section \<open>Responses\<close>

text \<open>
  The value \<^verbatim>\<open>jsonify\<close> serialises. \<open>JIso t\<close> is the string
  \<^verbatim>\<open>t.isoformat()\<close> of a datetime.
\<close>

datatype json =
    JNull
  | JBool bool
  | JInt int
  | JStr string
  | JIso datetime
  | JArr "json list"
  | JObj "(string \<times> json) list"

text \<open>The dict \<^verbatim>\<open>status_sorteio_membros\<close> appends for each member (lines 94-99).\<close>

record status =
  st_membro :: membro_grupo
  st_ja_sorteou :: bool
  st_data_sorteio :: "datetime option"
  st_amigo_sorteado :: "user option"

text \<open>
  What a view function returns. \<open>Json code body\<close> is \<^verbatim>\<open>jsonify(body), code\<close>;
  \<open>Redirect url fl\<close> is \<^verbatim>\<open>redirect(url)\<close> after \<^verbatim>\<open>flash(message, category)\<close> when
  \<open>fl = Some (message, category)\<close>; the two \<open>Render\<close> constructors carry the
  arguments of \<^verbatim>\<open>render_template\<close>; \<open>Not_found\<close> is the 404 of
  \<^verbatim>\<open>get_or_404\<close> and \<^verbatim>\<open>first_or_404\<close>; \<open>Unauthorized\<close> is what
  \<^verbatim>\<open>@login_required\<close> answers when nobody is logged in; \<open>Server_error\<close> is the
  500 of an exception no handler catches.
\<close>

datatype response =
    Json int json
  | Redirect string "(string \<times> string) option"
  | Render_grupo grupo "membro_grupo list" "sugestao_presente list" bool "user option" "status list"
  | Render_ver_sorteio sorteio_individual grupo "user option" "sugestao_presente list"
  | Not_found
  | Unauthorized
  | Server_error

text \<open>
  The messages, as the UTF-8 bytes of the source's literals:
  \<^verbatim>\<open>C3 AA\<close> e-circumflex, \<^verbatim>\<open>C3 A3\<close> a-tilde, \<^verbatim>\<open>C3 A9\<close> e-acute,
  \<^verbatim>\<open>C3 A1\<close> a-acute, \<^verbatim>\<open>C3 AD\<close> i-acute, \<^verbatim>\<open>C3 B3\<close> o-acute,
  \<^verbatim>\<open>C3 A7\<close> c-cedilla.
\<close>

definition voce :: string where
  "voce = ''Voc'' @ [CHR 0xC3, CHR 0xAA]"

definition nao :: string where
  "nao = ''n'' @ [CHR 0xC3, CHR 0xA3] @ ''o''"

definition msg_nao_membro :: string where
  "msg_nao_membro = voce @ '' '' @ nao @ '' '' @ [CHR 0xC3, CHR 0xA9] @ '' membro deste grupo!''"

definition msg_ja_sorteou :: string where
  "msg_ja_sorteou = voce @ '' j'' @ [CHR 0xC3, CHR 0xA1] @ '' realizou o sorteio!''"

definition msg_sem_participantes :: string where
  "msg_sem_participantes =
     ''N'' @ [CHR 0xC3, CHR 0xA3] @ ''o h'' @ [CHR 0xC3, CHR 0xA1] @ '' participantes dispon''
       @ [CHR 0xC3, CHR 0xAD] @ ''veis!''"

definition msg_sorteio_nao_e_seu :: string where
  "msg_sorteio_nao_e_seu =
     ''Acesso negado! Este sorteio '' @ nao @ '' '' @ [CHR 0xC3, CHR 0xA9] @ '' seu.''"

definition msg_acesso_negado :: string where
  "msg_acesso_negado = ''Acesso negado!''"

definition msg_apenas_admin :: string where
  "msg_apenas_admin = ''Acesso negado! Apenas o admin pode ver este status.''"

text \<open>\<^verbatim>\<open>url_for\<close> of the routes the modelled handlers redirect to.\<close>

definition url_dashboard :: string where
  "url_dashboard = ''/dashboard''"

definition url_ver_meu_sorteio :: "string \<Rightarrow> string" where
  "url_ver_meu_sorteio token = ''/meu-sorteio/'' @ token"

section \<open>The access token: secrets.token_urlsafe\<close>

text \<open>
  \<^verbatim>\<open>secrets.token_urlsafe(n)\<close> is
  \<^verbatim>\<open>base64.urlsafe_b64encode(token_bytes(n)).rstrip(b'=').decode('ascii')\<close>.
  \<open>fonte\<close> is what the operating system's random source hands out, a list of
  bytes (numbers, read modulo 256); \<^verbatim>\<open>token_bytes(n)\<close> takes the next \<open>n\<close> of them.
  Base 64 turns each group of three bytes into four characters of the alphabet, and a last
  group of one or two bytes into two or three characters (the padding is stripped).
\<close>

definition alfabeto_urlsafe :: string where
  "alfabeto_urlsafe = ''ABCDEFGHIJKLMNOPQRSTUVWXYZabcdefghijklmnopqrstuvwxyz0123456789-_''"

fun urlsafe_b64encode :: "nat list \<Rightarrow> string" where
  "urlsafe_b64encode (a # b # c # rest) =
     [alfabeto_urlsafe ! (a div 4),
      alfabeto_urlsafe ! ((a mod 4) * 16 + b div 16),
      alfabeto_urlsafe ! ((b mod 16) * 4 + c div 64),
      alfabeto_urlsafe ! (c mod 64)] @ urlsafe_b64encode rest"
| "urlsafe_b64encode [a, b] =
     [alfabeto_urlsafe ! (a div 4),
      alfabeto_urlsafe ! ((a mod 4) * 16 + b div 16),
      alfabeto_urlsafe ! ((b mod 16) * 4)]"
| "urlsafe_b64encode [a] =
     [alfabeto_urlsafe ! (a div 4),
      alfabeto_urlsafe ! ((a mod 4) * 16)]"
| "urlsafe_b64encode [] = []"

definition token_bytes :: "nat \<Rightarrow> nat list \<Rightarrow> nat list" where
  "token_bytes nbytes fonte = map (\<lambda>b. b mod 256) (take nbytes fonte)"

definition token_urlsafe :: "nat \<Rightarrow> nat list \<Rightarrow> string" where
  "token_urlsafe nbytes fonte = urlsafe_b64encode (token_bytes nbytes fonte)"

section \<open>The draw: realizar_sorteio_individual (lines 357-408)\<close>

text \<open>
  \<^verbatim>\<open>random.choice(seq)\<close> is \<^verbatim>\<open>seq[i]\<close> for an index \<open>i\<close> below the length that the
  generator picks; \<open>rnd\<close> is the generator's number, reduced to such an index. On an
  empty sequence it raises IndexError: the result is None.
\<close>

definition random_choice :: "nat \<Rightarrow> 'a list \<Rightarrow> 'a option" where
  "random_choice rnd seq = (if seq = [] then None else Some (seq ! (rnd mod length seq)))"

text \<open>
  The pool of line 382: \<^verbatim>\<open>[m.usuario for m in membros if m.usuario_id != current_user.id]\<close>.
  \<^verbatim>\<open>m.usuario\<close> is the User row the membership points to, or None.
\<close>

definition participantes :: "db \<Rightarrow> int \<Rightarrow> int \<Rightarrow> user option list" where
  "participantes d grupo_id usuario_id =
     map (\<lambda>m. user_get d (m_usuario_id m))
       (filter (\<lambda>m. m_usuario_id m \<noteq> usuario_id) (membros_do_grupo d grupo_id))"

text \<open>
  The handler. Beyond the request (\<open>session\<close>, \<open>grupo_id\<close>) it reads three things
  from outside: \<open>rnd\<close>, the number \<^verbatim>\<open>random.choice\<close> draws; \<open>fonte\<close>, the bytes
  of the random source that \<^verbatim>\<open>secrets.token_urlsafe(32)\<close> consumes; \<open>now\<close>, the clock
  (\<^verbatim>\<open>data_sorteio\<close>'s default). \<^verbatim>\<open>amigo_sorteado.id\<close> raises AttributeError when the
  chosen \<^verbatim>\<open>m.usuario\<close> is None, and \<^verbatim>\<open>db.session.commit()\<close> raises IntegrityError
  when the token is already in the table (\<^verbatim>\<open>token_acesso\<close> is \<^verbatim>\<open>unique=True\<close>);
  nothing catches either, so both are a 500 with nothing written.
\<close>

definition realizar_sorteio_individual ::
  "db \<Rightarrow> int option \<Rightarrow> int \<Rightarrow> nat \<Rightarrow> nat list \<Rightarrow> datetime \<Rightarrow> response \<times> db" where
  "realizar_sorteio_individual d session grupo_id rnd fonte now =
     (case current_user d session of
        None \<Rightarrow> (Unauthorized, d)
      | Some cu \<Rightarrow>
     (case grupo_get d grupo_id of
        None \<Rightarrow> (Not_found, d)
      | Some grupo \<Rightarrow>
     (case membro_query d (u_id cu) grupo_id of
        None \<Rightarrow> (Json 403 (JObj [(''error'', JStr msg_nao_membro)]), d)
      | Some membro \<Rightarrow>
     (case sorteio_query d (u_id cu) grupo_id of
        Some sorteio_existente \<Rightarrow>
          (Json 400 (JObj [(''error'', JStr msg_ja_sorteou),
                           (''redirect'', JStr (url_ver_meu_sorteio (s_token_acesso sorteio_existente)))]),
           d)
      | None \<Rightarrow>
          let ps = participantes d grupo_id (u_id cu) in
          if length ps < 1 then (Json 400 (JObj [(''error'', JStr msg_sem_participantes)]), d)
          else
            (case random_choice rnd ps of
               None \<Rightarrow> (Server_error, d)
             | Some None \<Rightarrow> (Server_error, d)
             | Some (Some amigo_sorteado) \<Rightarrow>
                 let sorteio = \<lparr>s_id = next_id (map s_id (sorteios d)),
                                s_usuario_id = u_id cu,
                                s_grupo_id = grupo_id,
                                s_amigo_sorteado_id = u_id amigo_sorteado,
                                s_data_sorteio = now,
                                s_ultima_visualizacao = None,
                                s_vezes_visualizado = 0,
                                s_token_acesso = token_urlsafe 32 fonte\<rparr>
                 in if s_token_acesso sorteio \<in> set (map s_token_acesso (sorteios d))
                    then (Server_error, d)
                    else
                      (Json 200 (JObj [(''success'', JBool True),
                                       (''amigo'', JObj [(''id'', JInt (u_id amigo_sorteado)),
                                                         (''nome'', JStr (u_nome amigo_sorteado)),
                                                         (''email'', JStr (u_email amigo_sorteado))]),
                                       (''token'', JStr (s_token_acesso sorteio)),
                                       (''redirect'', JStr (url_ver_meu_sorteio (s_token_acesso sorteio)))]),
                       d\<lparr>sorteios := sorteios d @ [sorteio]\<rparr>))))))"

section \<open>The draw in two steps, and two requests that overlap\<close>

text \<open>
  The handler reads the database in lines 360-381 and writes it in lines 396-397, with no
  lock in between and no unique constraint on (\<^verbatim>\<open>usuario_id\<close>, \<^verbatim>\<open>grupo_id\<close>).
  \<open>verificar_sorteio\<close> is lines 360-394: the checks, the choice and the new object, or
  the response of an early return. \<open>gravar_sorteio\<close> is lines 396-408: the commit, where
  the database gives the primary key and \<^verbatim>\<open>data_sorteio\<close> and enforces the unique
  token, and the response.
\<close>

record sorteio_pendente =
  p_usuario_id :: int
  p_grupo_id :: int
  p_amigo_sorteado :: user
  p_token_acesso :: string

definition verificar_sorteio ::
  "db \<Rightarrow> int option \<Rightarrow> int \<Rightarrow> nat \<Rightarrow> nat list \<Rightarrow> response + sorteio_pendente" where
  "verificar_sorteio d session grupo_id rnd fonte =
     (case current_user d session of
        None \<Rightarrow> Inl Unauthorized
      | Some cu \<Rightarrow>
     (case grupo_get d grupo_id of
        None \<Rightarrow> Inl Not_found
      | Some grupo \<Rightarrow>
     (case membro_query d (u_id cu) grupo_id of
        None \<Rightarrow> Inl (Json 403 (JObj [(''error'', JStr msg_nao_membro)]))
      | Some membro \<Rightarrow>
     (case sorteio_query d (u_id cu) grupo_id of
        Some sorteio_existente \<Rightarrow>
          Inl (Json 400 (JObj [(''error'', JStr msg_ja_sorteou),
                               (''redirect'', JStr (url_ver_meu_sorteio (s_token_acesso sorteio_existente)))]))
      | None \<Rightarrow>
          let ps = participantes d grupo_id (u_id cu) in
          if length ps < 1 then Inl (Json 400 (JObj [(''error'', JStr msg_sem_participantes)]))
          else
            (case random_choice rnd ps of
               None \<Rightarrow> Inl Server_error
             | Some None \<Rightarrow> Inl Server_error
             | Some (Some amigo_sorteado) \<Rightarrow>
                 Inr \<lparr>p_usuario_id = u_id cu,
                      p_grupo_id = grupo_id,
                      p_amigo_sorteado = amigo_sorteado,
                      p_token_acesso = token_urlsafe 32 fonte\<rparr>)))))"

definition gravar_sorteio :: "db \<Rightarrow> sorteio_pendente \<Rightarrow> datetime \<Rightarrow> response \<times> db" where
  "gravar_sorteio d p now =
     (let sorteio = \<lparr>s_id = next_id (map s_id (sorteios d)),
                     s_usuario_id = p_usuario_id p,
                     s_grupo_id = p_grupo_id p,
                     s_amigo_sorteado_id = u_id (p_amigo_sorteado p),
                     s_data_sorteio = now,
                     s_ultima_visualizacao = None,
                     s_vezes_visualizado = 0,
                     s_token_acesso = p_token_acesso p\<rparr>
      in if s_token_acesso sorteio \<in> set (map s_token_acesso (sorteios d))
         then (Server_error, d)
         else
           (Json 200 (JObj [(''success'', JBool True),
                            (''amigo'', JObj [(''id'', JInt (u_id (p_amigo_sorteado p))),
                                              (''nome'', JStr (u_nome (p_amigo_sorteado p))),
                                              (''email'', JStr (u_email (p_amigo_sorteado p)))]),
                            (''token'', JStr (s_token_acesso sorteio)),
                            (''redirect'', JStr (url_ver_meu_sorteio (s_token_acesso sorteio)))]),
            d\<lparr>sorteios := sorteios d @ [sorteio]\<rparr>))"

text \<open>
  Two draw requests that overlap: both run their checks on the database \<open>d\<close> before
  either commits; then the first commits, then the second. Each argument is the
  request's \<open>(session, grupo_id, rnd, fonte)\<close>. The result is the two responses and
  the database left behind.
\<close>

definition sorteios_sobrepostos ::
  "db \<Rightarrow> int option \<times> int \<times> nat \<times> nat list \<Rightarrow> int option \<times> int \<times> nat \<times> nat list \<Rightarrow> datetime
     \<Rightarrow> response \<times> response \<times> db" where
  "sorteios_sobrepostos d a b now =
     (case (a, b) of ((session_a, grupo_a, rnd_a, fonte_a), (session_b, grupo_b, rnd_b, fonte_b)) \<Rightarrow>
        let lido_a = verificar_sorteio d session_a grupo_a rnd_a fonte_a;
            lido_b = verificar_sorteio d session_b grupo_b rnd_b fonte_b;
            (resposta_a, d1) = (case lido_a of Inl r \<Rightarrow> (r, d) | Inr p \<Rightarrow> gravar_sorteio d p now);
            (resposta_b, d2) = (case lido_b of Inl r \<Rightarrow> (r, d1) | Inr p \<Rightarrow> gravar_sorteio d1 p now)
        in (resposta_a, resposta_b, d2))"

section \<open>The reveal: registrar_visualizacao (lines 127-130), ver_meu_sorteio (lines 411-432)\<close>

text \<open>
  \<^verbatim>\<open>vezes_visualizado\<close> is a \<^verbatim>\<open>db.Integer\<close> column, SQL INTEGER: on PostgreSQL, the
  database lines 18-20 prepare the URL for, four bytes, signed.
\<close>

definition integer_max :: int where
  "integer_max = 2147483647"

text \<open>
  \<^verbatim>\<open>registrar_visualizacao\<close> changes two attributes of the object and commits: the row
  with the object's primary key is rewritten. \<open>now\<close> is \<^verbatim>\<open>datetime.utcnow()\<close>.
  The changed object is returned with the database. When the new counter does not fit
  the column the commit raises and nothing is written: the result is None.
\<close>

definition registrar_visualizacao ::
  "db \<Rightarrow> sorteio_individual \<Rightarrow> datetime \<Rightarrow> (sorteio_individual \<times> db) option" where
  "registrar_visualizacao d self now =
     (let self' = self\<lparr>s_ultima_visualizacao := Some now,
                        s_vezes_visualizado := s_vezes_visualizado self + 1\<rparr>
      in if integer_max < s_vezes_visualizado self' then None
         else Some (self',
                    d\<lparr>sorteios := map (\<lambda>s. if s_id s = s_id self then self' else s) (sorteios d)\<rparr>))"

text \<open>
  The exception of a failed commit in \<^verbatim>\<open>registrar_visualizacao\<close> is not caught: a
  500. \<^verbatim>\<open>grupo.id\<close> on line 424 raises AttributeError when \<^verbatim>\<open>Grupo.query.get\<close>
  found nothing: a 500, after the view was committed.
\<close>

definition ver_meu_sorteio :: "db \<Rightarrow> int option \<Rightarrow> string \<Rightarrow> datetime \<Rightarrow> response \<times> db" where
  "ver_meu_sorteio d session token now =
     (case current_user d session of
        None \<Rightarrow> (Unauthorized, d)
      | Some cu \<Rightarrow>
     (case sorteio_by_token d token of
        None \<Rightarrow> (Not_found, d)
      | Some sorteio \<Rightarrow>
          if s_usuario_id sorteio \<noteq> u_id cu
          then (Redirect url_dashboard (Some (msg_sorteio_nao_e_seu, ''error'')), d)
          else
            (case registrar_visualizacao d sorteio now of
               None \<Rightarrow> (Server_error, d)
             | Some (sorteio', d') \<Rightarrow>
            (case grupo_get d' (s_grupo_id sorteio') of
               None \<Rightarrow> (Server_error, d')
             | Some grupo \<Rightarrow>
                 (Render_ver_sorteio sorteio' grupo
                    (user_get d' (s_amigo_sorteado_id sorteio'))
                    (filter (\<lambda>sg. sg_grupo_id sg = g_id grupo
                                  \<and> sg_usuario_id sg = s_amigo_sorteado_id sorteio')
                       (sugestoes d')),
                  d')))))"

section \<open>The methods of Grupo (lines 73-100)\<close>

definition usuario_ja_sorteou :: "db \<Rightarrow> grupo \<Rightarrow> int \<Rightarrow> bool" where
  "usuario_ja_sorteou d self usuario_id = (sorteio_query d usuario_id (g_id self) \<noteq> None)"

definition amigo_do_usuario :: "db \<Rightarrow> grupo \<Rightarrow> int \<Rightarrow> user option" where
  "amigo_do_usuario d self usuario_id =
     (case sorteio_query d usuario_id (g_id self) of
        Some sorteio \<Rightarrow> user_get d (s_amigo_sorteado_id sorteio)
      | None \<Rightarrow> None)"

definition status_do_membro :: "db \<Rightarrow> grupo \<Rightarrow> membro_grupo \<Rightarrow> status" where
  "status_do_membro d self membro =
     (let sorteio = sorteio_query d (m_usuario_id membro) (g_id self)
      in \<lparr>st_membro = membro,
          st_ja_sorteou = (sorteio \<noteq> None),
          st_data_sorteio = (case sorteio of Some s \<Rightarrow> Some (s_data_sorteio s) | None \<Rightarrow> None),
          st_amigo_sorteado =
            (case sorteio of Some s \<Rightarrow> user_get d (s_amigo_sorteado_id s) | None \<Rightarrow> None)\<rparr>)"

text \<open>The loop over \<^verbatim>\<open>self.membros\<close>, the membership rows of the group.\<close>

definition status_sorteio_membros :: "db \<Rightarrow> grupo \<Rightarrow> status list" where
  "status_sorteio_membros d self = map (status_do_membro d self) (membros_do_grupo d (g_id self))"

section \<open>The group page: ver_grupo (lines 266-294)\<close>

definition ver_grupo :: "db \<Rightarrow> int option \<Rightarrow> int \<Rightarrow> response \<times> db" where
  "ver_grupo d session grupo_id =
     (case current_user d session of
        None \<Rightarrow> (Unauthorized, d)
      | Some cu \<Rightarrow>
     (case grupo_get d grupo_id of
        None \<Rightarrow> (Not_found, d)
      | Some grupo \<Rightarrow>
          if membro_query d (u_id cu) grupo_id = None \<and> g_admin_id grupo \<noteq> u_id cu
          then (Redirect url_dashboard (Some (msg_acesso_negado, ''error'')), d)
          else
            (Render_grupo grupo
               (membros_do_grupo d grupo_id)
               (filter (\<lambda>sg. sg_grupo_id sg = grupo_id) (sugestoes d))
               (usuario_ja_sorteou d grupo (u_id cu))
               (amigo_do_usuario d grupo (u_id cu))
               (if g_admin_id grupo = u_id cu then status_sorteio_membros d grupo else []),
             d)))"

section \<open>The status report: api_status_sorteio (lines 546-574)\<close>

text \<open>
  One entry of the \<^verbatim>\<open>membros\<close> list. \<^verbatim>\<open>status['membro'].usuario.nome\<close> raises
  AttributeError when the membership points to no User row: the entry is None then.
\<close>

definition membro_json :: "db \<Rightarrow> status \<Rightarrow> json option" where
  "membro_json d st =
     (case user_get d (m_usuario_id (st_membro st)) of
        None \<Rightarrow> None
      | Some usuario \<Rightarrow>
          Some (JObj [(''id'', JInt (m_id (st_membro st))),
                      (''usuario_id'', JInt (m_usuario_id (st_membro st))),
                      (''nome'', JStr (u_nome usuario)),
                      (''email'', JStr (u_email usuario)),
                      (''ja_sorteou'', JBool (st_ja_sorteou st)),
                      (''data_sorteio'',
                         (case st_data_sorteio st of Some t \<Rightarrow> JIso t | None \<Rightarrow> JNull)),
                      (''amigo_sorteado'',
                         (case st_amigo_sorteado st of Some a \<Rightarrow> JStr (u_nome a) | None \<Rightarrow> JNull))]))"

definition api_status_sorteio :: "db \<Rightarrow> int option \<Rightarrow> int \<Rightarrow> response \<times> db" where
  "api_status_sorteio d session grupo_id =
     (case current_user d session of
        None \<Rightarrow> (Unauthorized, d)
      | Some cu \<Rightarrow>
     (case grupo_get d grupo_id of
        None \<Rightarrow> (Not_found, d)
      | Some grupo \<Rightarrow>
          if g_admin_id grupo \<noteq> u_id cu
          then (Json 403 (JObj [(''error'', JStr msg_apenas_admin)]), d)
          else
            let status_membros = status_sorteio_membros d grupo in
            (case those (map (membro_json d) status_membros) of
               None \<Rightarrow> (Server_error, d)
             | Some ms \<Rightarrow>
                 (Json 200 (JObj [(''grupo'', JObj [(''id'', JInt (g_id grupo)),
                                                   (''nome'', JStr (g_nome grupo)),
                                                   (''total_membros'', JInt (int (length status_membros)))]),
                                  (''membros'', JArr ms)]),
                  d))))"

section \<open>Accounts and memberships: register, criar_grupo, entrar_grupo\<close>

text \<open>The decimal digits of an identifier, for \<^verbatim>\<open>url_for('ver_grupo', grupo_id=...)\<close>.\<close>

function str_nat :: "nat \<Rightarrow> string" where
  "str_nat n = (if n < 10 then [char_of (48 + n)] else str_nat (n div 10) @ [char_of (48 + n mod 10)])"
  by pat_completeness auto
termination
  by (relation "measure id") auto

declare str_nat.simps [simp del]

definition str_int :: "int \<Rightarrow> string" where
  "str_int i = (if i < 0 then ''-'' @ str_nat (nat (- i)) else str_nat (nat i))"

definition url_ver_grupo :: "int \<Rightarrow> string" where
  "url_ver_grupo grupo_id = ''/grupo/'' @ str_int grupo_id"

definition url_register :: string where
  "url_register = ''/register''"

definition url_login :: string where
  "url_login = ''/login''"

definition msg_email_ja_cadastrado :: string where
  "msg_email_ja_cadastrado = ''Email j'' @ [CHR 0xC3, CHR 0xA1] @ '' cadastrado!''"

definition msg_cadastro_realizado :: string where
  "msg_cadastro_realizado =
     ''Cadastro realizado com sucesso! Fa'' @ [CHR 0xC3, CHR 0xA7] @ ''a login.''"

definition msg_grupo_criado :: string where
  "msg_grupo_criado = ''Grupo criado com sucesso!''"

definition msg_codigo_invalido :: string where
  "msg_codigo_invalido =
     ''C'' @ [CHR 0xC3, CHR 0xB3] @ ''digo inv'' @ [CHR 0xC3, CHR 0xA1] @ ''lido!''"

definition msg_ja_e_membro :: string where
  "msg_ja_e_membro =
     voce @ '' j'' @ [CHR 0xC3, CHR 0xA1] @ '' '' @ [CHR 0xC3, CHR 0xA9] @ '' membro deste grupo!''"

definition msg_entrou_no_grupo :: string where
  "msg_entrou_no_grupo = voce @ '' entrou no grupo com sucesso!''"

text \<open>
  The POST branch of \<^verbatim>\<open>register\<close> (lines 171-188). \<open>email\<close> and \<open>nome\<close> are the form
  fields, \<open>password_hash\<close> is what \<^verbatim>\<open>generate_password_hash\<close> made of the
  password, \<open>now\<close> is the clock (\<^verbatim>\<open>created_at\<close>'s default).
\<close>

definition register :: "db \<Rightarrow> string \<Rightarrow> string \<Rightarrow> string \<Rightarrow> datetime \<Rightarrow> response \<times> db" where
  "register d email nome password_hash now =
     (case find (\<lambda>u. u_email u = email) (users d) of
        Some existente \<Rightarrow> (Redirect url_register (Some (msg_email_ja_cadastrado, ''error'')), d)
      | None \<Rightarrow>
          let user = \<lparr>u_id = next_id (map u_id (users d)),
                     u_email = email,
                     u_password_hash = password_hash,
                     u_nome = nome,
                     u_created_at = now\<rparr>
          in (Redirect url_login (Some (msg_cadastro_realizado, ''success'')),
              d\<lparr>users := users d @ [user]\<rparr>))"

text \<open>
  The POST branch of \<^verbatim>\<open>criar_grupo\<close> (lines 228-261). The arguments from \<open>nome\<close> to
  \<open>valor_maximo\<close> are the form fields as the constructor receives them (parsed, or None
  when left empty); \<open>codigo_acesso\<close> is \<^verbatim>\<open>secrets.token_hex(5)[:10].upper()\<close>. The
  first commit raises IntegrityError when the code is taken (\<^verbatim>\<open>unique=True\<close>).
\<close>

definition criar_grupo ::
  "db \<Rightarrow> int option \<Rightarrow> string \<Rightarrow> string \<Rightarrow> datetime option \<Rightarrow> string option \<Rightarrow> float option
     \<Rightarrow> float option \<Rightarrow> string \<Rightarrow> datetime \<Rightarrow> response \<times> db" where
  "criar_grupo d session nome descricao data_evento local_evento valor_minimo valor_maximo
     codigo_acesso now =
     (case current_user d session of
        None \<Rightarrow> (Unauthorized, d)
      | Some cu \<Rightarrow>
          let grupo = \<lparr>g_id = next_id (map g_id (grupos d)),
                      g_nome = nome,
                      g_descricao = descricao,
                      g_codigo_acesso = codigo_acesso,
                      g_admin_id = u_id cu,
                      g_data_evento = data_evento,
                      g_local_evento = local_evento,
                      g_valor_minimo = valor_minimo,
                      g_valor_maximo = valor_maximo,
                      g_created_at = now\<rparr>;
              membro = \<lparr>m_id = next_id (map m_id (membros d)),
                       m_usuario_id = u_id cu,
                       m_grupo_id = g_id grupo,
                       m_data_ingresso = now\<rparr>
          in if codigo_acesso \<in> set (map g_codigo_acesso (grupos d)) then (Server_error, d)
             else (Redirect (url_ver_grupo (g_id grupo)) (Some (msg_grupo_criado, ''success'')),
                   d\<lparr>grupos := grupos d @ [grupo], membros := membros d @ [membro]\<rparr>))"

text \<open>
  \<^verbatim>\<open>entrar_grupo\<close> (lines 297-321). \<open>codigo\<close> is the form field after
  \<^verbatim>\<open>.strip().upper()\<close>.
\<close>

definition entrar_grupo :: "db \<Rightarrow> int option \<Rightarrow> string \<Rightarrow> datetime \<Rightarrow> response \<times> db" where
  "entrar_grupo d session codigo now =
     (case current_user d session of
        None \<Rightarrow> (Unauthorized, d)
      | Some cu \<Rightarrow>
     (case find (\<lambda>g. g_codigo_acesso g = codigo) (grupos d) of
        None \<Rightarrow> (Redirect url_dashboard (Some (msg_codigo_invalido, ''error'')), d)
      | Some grupo \<Rightarrow>
     (case membro_query d (u_id cu) (g_id grupo) of
        Some existente \<Rightarrow>
          (Redirect (url_ver_grupo (g_id grupo)) (Some (msg_ja_e_membro, ''warning'')), d)
      | None \<Rightarrow>
          let membro = \<lparr>m_id = next_id (map m_id (membros d)),
                       m_usuario_id = u_id cu,
                       m_grupo_id = g_id grupo,
                       m_data_ingresso = now\<rparr>
          in (Redirect (url_ver_grupo (g_id grupo)) (Some (msg_entrou_no_grupo, ''success'')),
              d\<lparr>membros := membros d @ [membro]\<rparr>))))"

section \<open>Runs of the application\<close>

text \<open>The requests to the modelled routes, each with what it reads from outside.\<close>

datatype request =
    Register string string string
  | Criar_grupo "int option" string string "datetime option" "string option" "float option"
      "float option" string
  | Entrar_grupo "int option" string
  | Ver_grupo "int option" int
  | Realizar_sorteio "int option" int nat "nat list"
  | Ver_meu_sorteio "int option" string
  | Api_status_sorteio "int option" int

fun handle :: "request \<Rightarrow> datetime \<Rightarrow> db \<Rightarrow> response \<times> db" where
  "handle (Register email nome password_hash) now d = register d email nome password_hash now"
| "handle (Criar_grupo session nome descricao data_evento local_evento vmin vmax codigo) now d =
     criar_grupo d session nome descricao data_evento local_evento vmin vmax codigo now"
| "handle (Entrar_grupo session codigo) now d = entrar_grupo d session codigo now"
| "handle (Ver_grupo session grupo_id) now d = ver_grupo d session grupo_id"
| "handle (Realizar_sorteio session grupo_id rnd fonte) now d =
     realizar_sorteio_individual d session grupo_id rnd fonte now"
| "handle (Ver_meu_sorteio session token) now d = ver_meu_sorteio d session token now"
| "handle (Api_status_sorteio session grupo_id) now d = api_status_sorteio d session grupo_id"

text \<open>
  \<open>reachable t d\<close>: the database \<open>d\<close> is what some sequence of requests, served one
  after the other from the empty database, each from its first read to its last write
  before the next begins, leaves behind, and \<open>t\<close> is the latest clock reading so far.
  Requests that overlap are not runs of this kind (\<open>sorteios_sobrepostos\<close> is one such
  overlap), nor are runs in which the clock is set back. The routes for
  gift suggestions (lines 436-543) write the SugestaoPresente table and no other, so the
  rule \<open>sugestao\<close> lets that table change freely. The remaining routes (index, login,
  logout, dashboard, tela_sorteio, lista_sugestoes) write no table.
\<close>

inductive reachable :: "datetime \<Rightarrow> db \<Rightarrow> bool" where
  init: "reachable t empty_db"
| request: "reachable t d \<Longrightarrow> t \<le> t' \<Longrightarrow> reachable t' (snd (handle req t' d))"
| sugestao: "reachable t d \<Longrightarrow> reachable t (d\<lparr>sugestoes := sgs\<rparr>)"

text \<open>Running a list of timed requests, for concrete scenarios.\<close>

fun run :: "(datetime \<times> request) list \<Rightarrow> db \<Rightarrow> db" where
  "run [] d = d"
| "run ((t, req) # rs) d = run rs (snd (handle req t d))"

section \<open>Invariants of the reachable databases\<close>

text \<open>
  What holds of every membership and of every draw in a database the application can
  reach; \<open>t\<close> is the latest clock reading.
\<close>

definition membro_ok :: "db \<Rightarrow> membro_grupo \<Rightarrow> bool" where
  "membro_ok d m \<longleftrightarrow> user_get d (m_usuario_id m) \<noteq> None \<and> grupo_get d (m_grupo_id m) \<noteq> None"

definition sorteio_ok :: "datetime \<Rightarrow> db \<Rightarrow> sorteio_individual \<Rightarrow> bool" where
  "sorteio_ok t d s \<longleftrightarrow>
     s_amigo_sorteado_id s \<noteq> s_usuario_id s \<and>
     grupo_get d (s_grupo_id s) \<noteq> None \<and>
     user_get d (s_usuario_id s) \<noteq> None \<and>
     user_get d (s_amigo_sorteado_id s) \<noteq> None \<and>
     membro_query d (s_usuario_id s) (s_grupo_id s) \<noteq> None \<and>
     membro_query d (s_amigo_sorteado_id s) (s_grupo_id s) \<noteq> None \<and>
     s_data_sorteio s \<le> t \<and>
     (case s_ultima_visualizacao s of None \<Rightarrow> True | Some v \<Rightarrow> v \<le> t)"

definition invariante :: "datetime \<Rightarrow> db \<Rightarrow> bool" where
  "invariante t d \<longleftrightarrow>
     distinct (map s_id (sorteios d)) \<and>
     distinct (map s_token_acesso (sorteios d)) \<and>
     distinct (map (\<lambda>s. (s_usuario_id s, s_grupo_id s)) (sorteios d)) \<and>
     distinct (map (\<lambda>m. (m_usuario_id m, m_grupo_id m)) (membros d)) \<and>
     list_all (sorteio_ok t d) (sorteios d) \<and>
     list_all (membro_ok d) (membros d)"

section \<open>A concrete run\<close>

text \<open>
  Four users register; Ana creates the group Natal, Bia and Caio join it, and Davi
  creates a group of his own that nobody joins (\<open>db_grupo\<close>). Then Ana draws in Natal
  (\<open>db_exemplo\<close>) and looks at the result (\<open>db_visto\<close>). In \<open>db_admin_fora\<close> the
  membership of Natal's admin is missing.
\<close>

definition ana :: user where
  "ana = \<lparr>u_id = 1, u_email = ''ana@example.org'', u_password_hash = ''h1'', u_nome = ''Ana'',
           u_created_at = 1\<rparr>"

definition bia :: user where
  "bia = \<lparr>u_id = 2, u_email = ''bia@example.org'', u_password_hash = ''h2'', u_nome = ''Bia'',
           u_created_at = 2\<rparr>"

definition caio :: user where
  "caio = \<lparr>u_id = 3, u_email = ''caio@example.org'', u_password_hash = ''h3'', u_nome = ''Caio'',
            u_created_at = 3\<rparr>"

definition davi :: user where
  "davi = \<lparr>u_id = 4, u_email = ''davi@example.org'', u_password_hash = ''h4'', u_nome = ''Davi'',
            u_created_at = 4\<rparr>"

definition natal :: grupo where
  "natal = \<lparr>g_id = 1, g_nome = ''Natal'', g_descricao = ''Amigo secreto'',
             g_codigo_acesso = ''A1B2C3D4E5'', g_admin_id = 1, g_data_evento = None,
             g_local_evento = None, g_valor_minimo = None, g_valor_maximo = None,
             g_created_at = 5\<rparr>"

definition sozinho :: grupo where
  "sozinho = \<lparr>g_id = 2, g_nome = ''Sozinho'', g_descricao = ''Um grupo de um'',
               g_codigo_acesso = ''F6A7B8C9D0'', g_admin_id = 4, g_data_evento = None,
               g_local_evento = None, g_valor_minimo = None, g_valor_maximo = None,
               g_created_at = 8\<rparr>"

definition cenario_grupo :: "(datetime \<times> request) list" where
  "cenario_grupo =
     [(1, Register ''ana@example.org'' ''Ana'' ''h1''),
      (2, Register ''bia@example.org'' ''Bia'' ''h2''),
      (3, Register ''caio@example.org'' ''Caio'' ''h3''),
      (4, Register ''davi@example.org'' ''Davi'' ''h4''),
      (5, Criar_grupo (Some 1) ''Natal'' ''Amigo secreto'' None None None None ''A1B2C3D4E5''),
      (6, Entrar_grupo (Some 2) ''A1B2C3D4E5''),
      (7, Entrar_grupo (Some 3) ''A1B2C3D4E5''),
      (8, Criar_grupo (Some 4) ''Sozinho'' ''Um grupo de um'' None None None None ''F6A7B8C9D0'')]"

definition db_grupo :: db where
  "db_grupo =
     \<lparr>users = [ana, bia, caio, davi],
      grupos = [natal, sozinho],
      membros = [\<lparr>m_id = 1, m_usuario_id = 1, m_grupo_id = 1, m_data_ingresso = 5\<rparr>,
                 \<lparr>m_id = 2, m_usuario_id = 2, m_grupo_id = 1, m_data_ingresso = 6\<rparr>,
                 \<lparr>m_id = 3, m_usuario_id = 3, m_grupo_id = 1, m_data_ingresso = 7\<rparr>,
                 \<lparr>m_id = 4, m_usuario_id = 4, m_grupo_id = 2, m_data_ingresso = 8\<rparr>],
      sorteios = [],
      sugestoes = []\<rparr>"

text \<open>The bytes the random source gave to three draw requests, and their tokens.\<close>

definition fonte_ana :: "nat list" where
  "fonte_ana = [11, 48, 85, 122, 159, 196, 233, 14, 51, 88, 125, 162, 199, 236, 17, 54,
                91, 128, 165, 202, 239, 20, 57, 94, 131, 168, 205, 242, 23, 60, 97, 134]"

definition token_ana :: string where
  "token_ana = ''CzBVep_E6Q4zWH2ix-wRNluApcrvFDleg6jN8hc8YYY''"

definition fonte_bia :: "nat list" where
  "fonte_bia = [200, 35, 126, 217, 52, 143, 234, 69, 160, 251, 86, 177, 12, 103, 194, 29,
                120, 211, 46, 137, 228, 63, 154, 245, 80, 171, 6, 97, 188, 23, 114, 205]"

definition token_bia :: string where
  "token_bia = ''yCN-2TSP6kWg-1axDGfCHXjTLonkP5r1UKsGYbwXcs0''"

definition fonte_novo :: "nat list" where
  "fonte_novo = [7, 60, 113, 166, 219, 16, 69, 122, 175, 228, 25, 78, 131, 184, 237, 34,
                 87, 140, 193, 246, 43, 96, 149, 202, 255, 52, 105, 158, 211, 8, 61, 114]"

definition token_novo :: string where
  "token_novo = ''BzxxptsQRXqv5BlOg7jtIleMwfYrYJXK_zRpntMIPXI''"

definition sorteio_ana :: sorteio_individual where
  "sorteio_ana = \<lparr>s_id = 1, s_usuario_id = 1, s_grupo_id = 1, s_amigo_sorteado_id = 2,
                   s_data_sorteio = 9, s_ultima_visualizacao = None, s_vezes_visualizado = 0,
                   s_token_acesso = token_ana\<rparr>"

definition db_exemplo :: db where
  "db_exemplo = db_grupo\<lparr>sorteios := [sorteio_ana]\<rparr>"

definition db_admin_fora :: db where
  "db_admin_fora = db_grupo\<lparr>membros := tl (membros db_grupo)\<rparr>"

definition sorteio_visto :: sorteio_individual where
  "sorteio_visto = sorteio_ana\<lparr>s_ultima_visualizacao := Some 10, s_vezes_visualizado := 1\<rparr>"

definition db_visto :: db where
  "db_visto = db_grupo\<lparr>sorteios := [sorteio_visto]\<rparr>"

text \<open>
  After \<open>n\<close> looks at the result, the last at time 10, and the database in which the
  counter has reached the column's maximum.
\<close>

definition db_vistas :: "nat \<Rightarrow> db" where
  "db_vistas n =
     db_grupo\<lparr>sorteios := [sorteio_ana\<lparr>s_ultima_visualizacao := Some 10,
                                         s_vezes_visualizado := int n\<rparr>]\<rparr>"

definition sorteio_no_limite :: sorteio_individual where
  "sorteio_no_limite = sorteio_ana\<lparr>s_ultima_visualizacao := Some 10,
                                    s_vezes_visualizado := 2147483647\<rparr>"

definition db_no_limite :: db where
  "db_no_limite = db_grupo\<lparr>sorteios := [sorteio_no_limite]\<rparr>"

text \<open>
  The database two overlapping draw requests of Ana leave behind, both checked on
  \<open>db_grupo\<close>.
\<close>

definition sorteio_ana_de_novo :: sorteio_individual where
  "sorteio_ana_de_novo = \<lparr>s_id = 2, s_usuario_id = 1, s_grupo_id = 1, s_amigo_sorteado_id = 3,
                           s_data_sorteio = 9, s_ultima_visualizacao = None,
                           s_vezes_visualizado = 0, s_token_acesso = token_bia\<rparr>"

definition db_duplo :: db where
  "db_duplo = db_grupo\<lparr>sorteios := [sorteio_ana, sorteio_ana_de_novo]\<rparr>"

section \<open>Auxiliary facts\<close>

lemma fold_max_ge: "(a::int) \<le> fold max xs a"
  by (induction xs arbitrary: a) (auto intro: order_trans [OF max.cobounded2])

lemma fold_max_mem: "(x::int) \<in> set xs \<Longrightarrow> x \<le> fold max xs a"
proof (induction xs arbitrary: a)
  case Nil
  then show ?case by simp
next
  case (Cons y ys)
  show ?case
  proof (cases "x = y")
    case True
    have "y \<le> max y a" by simp
    also have "\<dots> \<le> fold max ys (max y a)" by (rule fold_max_ge)
    finally show ?thesis using True by simp
  next
    case False
    with Cons show ?thesis by simp
  qed
qed

lemma next_id_fresh: "x \<in> set ids \<Longrightarrow> x < next_id ids"
  using fold_max_mem [of x ids 0] by (simp add: next_id_def)

lemma next_id_notin: "next_id ids \<notin> set ids"
  using next_id_fresh [of "next_id ids" ids] by auto

lemma user_get_iff: "user_get d i \<noteq> None \<longleftrightarrow> i \<in> u_id ` set (users d)"
  by (auto simp: user_get_def find_None_iff)

lemma grupo_get_iff: "grupo_get d i \<noteq> None \<longleftrightarrow> i \<in> g_id ` set (grupos d)"
  by (auto simp: grupo_get_def find_None_iff)

lemma membro_query_iff:
  "membro_query d u g \<noteq> None \<longleftrightarrow> (u, g) \<in> (\<lambda>m. (m_usuario_id m, m_grupo_id m)) ` set (membros d)"
  by (auto simp: membro_query_def find_None_iff)

lemma sorteio_query_iff:
  "sorteio_query d u g \<noteq> None \<longleftrightarrow> (u, g) \<in> (\<lambda>s. (s_usuario_id s, s_grupo_id s)) ` set (sorteios d)"
  by (auto simp: sorteio_query_def find_None_iff)

lemma user_get_Some: "user_get d i = Some u \<Longrightarrow> u \<in> set (users d) \<and> u_id u = i"
  by (auto simp: user_get_def find_Some_iff)

lemma current_user_Some: "current_user d session = Some cu \<Longrightarrow> cu \<in> set (users d)"
  by (auto simp: current_user_def dest: user_get_Some split: option.splits)

lemma random_choice_mem: "random_choice rnd seq = Some x \<Longrightarrow> x \<in> set seq"
  by (auto simp: random_choice_def split: if_splits)


lemma realizar_success:
  assumes "realizar_sorteio_individual d session gid rnd fonte now = (Json 200 body, d')"
  shows "\<exists>cu amigo.
           current_user d session = Some cu \<and>
           grupo_get d gid \<noteq> None \<and>
           membro_query d (u_id cu) gid \<noteq> None \<and>
           sorteio_query d (u_id cu) gid = None \<and>
           participantes d gid (u_id cu) \<noteq> [] \<and>
           random_choice rnd (participantes d gid (u_id cu)) = Some (Some amigo) \<and>
           token_urlsafe 32 fonte \<notin> s_token_acesso ` set (sorteios d) \<and>
           d' = d\<lparr>sorteios := sorteios d @
                  [\<lparr>s_id = next_id (map s_id (sorteios d)), s_usuario_id = u_id cu,
                    s_grupo_id = gid, s_amigo_sorteado_id = u_id amigo, s_data_sorteio = now,
                    s_ultima_visualizacao = None, s_vezes_visualizado = 0,
                    s_token_acesso = token_urlsafe 32 fonte\<rparr>]\<rparr> \<and>
           body = JObj [(''success'', JBool True),
                        (''amigo'', JObj [(''id'', JInt (u_id amigo)),
                                          (''nome'', JStr (u_nome amigo)),
                                          (''email'', JStr (u_email amigo))]),
                        (''token'', JStr (token_urlsafe 32 fonte)),
                        (''redirect'', JStr (url_ver_meu_sorteio (token_urlsafe 32 fonte)))]"
  using assms
  by (auto simp: realizar_sorteio_individual_def Let_def split: option.splits if_splits)

lemma realizar_cases:
  "(\<exists>body. fst (realizar_sorteio_individual d session gid rnd fonte now) = Json 200 body)
   \<or> snd (realizar_sorteio_individual d session gid rnd fonte now) = d"
  by (auto simp: realizar_sorteio_individual_def Let_def split: option.splits if_splits)

lemma participantes_mem:
  assumes "Some a \<in> set (participantes d gid uid)"
  shows "u_id a \<noteq> uid \<and> (\<exists>m\<in>set (membros d). m_usuario_id m = u_id a \<and> m_grupo_id m = gid)
         \<and> a \<in> set (users d)"
  using assms
  by (auto simp: participantes_def membros_do_grupo_def dest!: user_get_Some sym [of "Some a"])


lemma membro_ok_mono:
  assumes "membro_ok d m" "set (users d) \<subseteq> set (users d')" "set (grupos d) \<subseteq> set (grupos d')"
  shows "membro_ok d' m"
  using assms unfolding membro_ok_def user_get_iff grupo_get_iff by blast

lemma sorteio_ok_mono:
  assumes "sorteio_ok t d s" "t \<le> t'"
    "set (users d) \<subseteq> set (users d')" "set (grupos d) \<subseteq> set (grupos d')"
    "set (membros d) \<subseteq> set (membros d')"
  shows "sorteio_ok t' d' s"
proof -
  have "case s_ultima_visualizacao s of None \<Rightarrow> True | Some v \<Rightarrow> v \<le> t'"
    using assms(1,2) by (auto simp: sorteio_ok_def split: option.splits)
  moreover have "s_data_sorteio s \<le> t'"
    using assms(1,2) by (simp add: sorteio_ok_def)
  ultimately show ?thesis
    using assms(1,3,4,5) unfolding sorteio_ok_def user_get_iff grupo_get_iff membro_query_iff
    by blast
qed

lemma invariante_mono:
  assumes "invariante t d" "t \<le> t'"
    "set (users d) \<subseteq> set (users d')" "set (grupos d) \<subseteq> set (grupos d')"
    "membros d' = membros d" "sorteios d' = sorteios d"
  shows "invariante t' d'"
  using assms
  by (auto simp: invariante_def list_all_iff intro: sorteio_ok_mono membro_ok_mono)

lemma invariante_time: "invariante t d \<Longrightarrow> t \<le> t' \<Longrightarrow> invariante t' d"
  by (rule invariante_mono) auto

lemma invariante_sugestoes: "invariante t d \<Longrightarrow> invariante t (d\<lparr>sugestoes := sgs\<rparr>)"
  by (rule invariante_mono) auto

lemma invariante_empty: "invariante t empty_db"
  by (simp add: invariante_def empty_db_def)

lemma invariante_register:
  "invariante t d \<Longrightarrow> invariante t (snd (register d email nome password_hash now))"
  by (cases "find (\<lambda>u. u_email u = email) (users d)")
     (auto simp: register_def Let_def intro: invariante_mono)


lemma invariante_add_membro:
  assumes "invariante t d" "membro_ok d m"
    "(m_usuario_id m, m_grupo_id m) \<notin> (\<lambda>m. (m_usuario_id m, m_grupo_id m)) ` set (membros d)"
  shows "invariante t (d\<lparr>membros := membros d @ [m]\<rparr>)"
proof -
  let ?d = "d\<lparr>membros := membros d @ [m]\<rparr>"
  have "sorteio_ok t ?d s" if "s \<in> set (sorteios d)" for s
    using assms(1) that by (auto simp: invariante_def list_all_iff intro: sorteio_ok_mono)
  moreover have "membro_ok ?d x" if "x \<in> set (membros d) \<or> x = m" for x
    using assms(1,2) that by (auto simp: invariante_def list_all_iff intro: membro_ok_mono)
  ultimately show ?thesis
    using assms(1,3) by (auto simp: invariante_def list_all_iff)
qed

lemma invariante_add_sorteio:
  assumes "invariante t d" "sorteio_ok t d s"
    "s_id s \<notin> s_id ` set (sorteios d)"
    "s_token_acesso s \<notin> s_token_acesso ` set (sorteios d)"
    "(s_usuario_id s, s_grupo_id s) \<notin> (\<lambda>s. (s_usuario_id s, s_grupo_id s)) ` set (sorteios d)"
  shows "invariante t (d\<lparr>sorteios := sorteios d @ [s]\<rparr>)"
proof -
  let ?d = "d\<lparr>sorteios := sorteios d @ [s]\<rparr>"
  have "sorteio_ok t ?d x" if "x \<in> set (sorteios d) \<or> x = s" for x
    using assms(1,2) that by (auto simp: invariante_def list_all_iff intro: sorteio_ok_mono)
  moreover have "membro_ok ?d x" if "x \<in> set (membros d)" for x
    using assms(1) that by (auto simp: invariante_def list_all_iff intro: membro_ok_mono)
  ultimately show ?thesis
    using assms(1,3,4,5) by (auto simp: invariante_def list_all_iff)
qed

lemma invariante_entrar_grupo:
  assumes "invariante t d"
  shows "invariante t (snd (entrar_grupo d session codigo now))"
proof (cases "current_user d session")
  case None
  then show ?thesis using assms by (simp add: entrar_grupo_def)
next
  case (Some cu)
  note cu = this
  show ?thesis
  proof (cases "find (\<lambda>g. g_codigo_acesso g = codigo) (grupos d)")
    case None
    then show ?thesis using assms cu by (simp add: entrar_grupo_def)
  next
    case (Some grupo)
    note gr = this
    show ?thesis
    proof (cases "membro_query d (u_id cu) (g_id grupo)")
      case (Some existente)
      then show ?thesis using assms cu gr by (simp add: entrar_grupo_def)
    next
      case None
      let ?m = "\<lparr>m_id = next_id (map m_id (membros d)), m_usuario_id = u_id cu,
                  m_grupo_id = g_id grupo, m_data_ingresso = now\<rparr>"
      have "grupo \<in> set (grupos d)" using gr by (auto simp: find_Some_iff)
      then have "membro_ok d ?m"
        using current_user_Some [OF cu] unfolding membro_ok_def user_get_iff grupo_get_iff
        by simp
      moreover have "(m_usuario_id ?m, m_grupo_id ?m)
                       \<notin> (\<lambda>m. (m_usuario_id m, m_grupo_id m)) ` set (membros d)"
        using None membro_query_iff [of d "u_id cu" "g_id grupo"] by simp
      ultimately have "invariante t (d\<lparr>membros := membros d @ [?m]\<rparr>)"
        using assms by (intro invariante_add_membro)
      then show ?thesis using cu gr None by (simp add: entrar_grupo_def)
    qed
  qed
qed

lemma invariante_criar_grupo:
  assumes "invariante t d"
  shows "invariante t (snd (criar_grupo d session nome descricao data_evento local_evento
                              vmin vmax codigo now))"
proof (cases "current_user d session")
  case None
  then show ?thesis using assms by (simp add: criar_grupo_def)
next
  case (Some cu)
  let ?g = "\<lparr>g_id = next_id (map g_id (grupos d)), g_nome = nome, g_descricao = descricao,
              g_codigo_acesso = codigo, g_admin_id = u_id cu, g_data_evento = data_evento,
              g_local_evento = local_evento, g_valor_minimo = vmin, g_valor_maximo = vmax,
              g_created_at = now\<rparr>"
  let ?m = "\<lparr>m_id = next_id (map m_id (membros d)), m_usuario_id = u_id cu,
              m_grupo_id = g_id ?g, m_data_ingresso = now\<rparr>"
  let ?d1 = "d\<lparr>grupos := grupos d @ [?g]\<rparr>"
  have inv1: "invariante t ?d1"
    using assms by (rule invariante_mono) auto
  have ok: "membro_ok ?d1 ?m"
    using current_user_Some [OF Some] unfolding membro_ok_def user_get_iff grupo_get_iff
    by simp
  have "g_id ?g \<notin> g_id ` set (grupos d)"
    using next_id_notin [of "map g_id (grupos d)"] by simp
  moreover have "m_grupo_id x \<in> g_id ` set (grupos d)" if "x \<in> set (membros d)" for x
    using assms that unfolding invariante_def list_all_iff membro_ok_def grupo_get_iff
    by blast
  ultimately have fresh: "(m_usuario_id ?m, m_grupo_id ?m)
                      \<notin> (\<lambda>m. (m_usuario_id m, m_grupo_id m)) ` set (membros ?d1)"
    by auto
  have "invariante t (?d1\<lparr>membros := membros ?d1 @ [?m]\<rparr>)"
    using inv1 ok fresh by (rule invariante_add_membro)
  then show ?thesis
    using assms Some by (simp add: criar_grupo_def Let_def)
qed

lemma invariante_realizar:
  assumes "invariante t d"
  shows "invariante t (snd (realizar_sorteio_individual d session gid rnd fonte t))"
proof -
  let ?r = "realizar_sorteio_individual d session gid rnd fonte t"
  consider (same) "snd ?r = d" | (ok) body where "fst ?r = Json 200 body"
    using realizar_cases [of d session gid rnd fonte t] by blast
  then show ?thesis
  proof cases
    case same
    then show ?thesis using assms by simp
  next
    case ok
    then have "?r = (Json 200 body, snd ?r)" by (simp add: prod_eq_iff)
    from realizar_success [OF this] obtain cu amigo where
      cu: "current_user d session = Some cu" and
      gr: "grupo_get d gid \<noteq> None" and
      mb: "membro_query d (u_id cu) gid \<noteq> None" and
      nd: "sorteio_query d (u_id cu) gid = None" and
      ne: "participantes d gid (u_id cu) \<noteq> []" and
      ch: "random_choice rnd (participantes d gid (u_id cu)) = Some (Some amigo)" and
      tk: "token_urlsafe 32 fonte \<notin> s_token_acesso ` set (sorteios d)" and
      d': "snd ?r = d\<lparr>sorteios := sorteios d @
                  [\<lparr>s_id = next_id (map s_id (sorteios d)), s_usuario_id = u_id cu,
                    s_grupo_id = gid, s_amigo_sorteado_id = u_id amigo, s_data_sorteio = t,
                    s_ultima_visualizacao = None, s_vezes_visualizado = 0,
                    s_token_acesso = token_urlsafe 32 fonte\<rparr>]\<rparr>"
      by blast
    let ?s = "\<lparr>s_id = next_id (map s_id (sorteios d)), s_usuario_id = u_id cu,
                s_grupo_id = gid, s_amigo_sorteado_id = u_id amigo, s_data_sorteio = t,
                s_ultima_visualizacao = None, s_vezes_visualizado = 0,
                s_token_acesso = token_urlsafe 32 fonte\<rparr>"
    have "Some amigo \<in> set (participantes d gid (u_id cu))"
      using ch by (rule random_choice_mem)
    from participantes_mem [OF this]
    have am: "u_id amigo \<noteq> u_id cu" "amigo \<in> set (users d)"
      "\<exists>m\<in>set (membros d). m_usuario_id m = u_id amigo \<and> m_grupo_id m = gid"
      by auto
    have "membro_query d (u_id amigo) gid \<noteq> None"
      unfolding membro_query_iff using am(3) by force
    moreover have "user_get d (u_id amigo) \<noteq> None" "user_get d (u_id cu) \<noteq> None"
      unfolding user_get_iff using am(2) current_user_Some [OF cu] by auto
    ultimately have ok: "sorteio_ok t d ?s"
      using am(1) gr mb by (simp add: sorteio_ok_def)
    have "s_id ?s \<notin> s_id ` set (sorteios d)"
      using next_id_notin [of "map s_id (sorteios d)"] by simp
    moreover have "s_token_acesso ?s \<notin> s_token_acesso ` set (sorteios d)"
      using tk by simp
    moreover have "(s_usuario_id ?s, s_grupo_id ?s)
                     \<notin> (\<lambda>s. (s_usuario_id s, s_grupo_id s)) ` set (sorteios d)"
      using nd sorteio_query_iff [of d "u_id cu" gid] by simp
    ultimately have "invariante t (d\<lparr>sorteios := sorteios d @ [?s]\<rparr>)"
      using assms ok by (intro invariante_add_sorteio)
    then show ?thesis using d' by simp
  qed
qed

lemma registrar_Some:
  assumes "registrar_visualizacao d s now = Some (s', d')"
  shows "s' = s\<lparr>s_ultima_visualizacao := Some now, s_vezes_visualizado := s_vezes_visualizado s + 1\<rparr>
         \<and> d' = d\<lparr>sorteios := map (\<lambda>x. if s_id x = s_id s then s' else x) (sorteios d)\<rparr>
         \<and> s_vezes_visualizado s < integer_max"
  using assms by (auto simp: registrar_visualizacao_def Let_def split: if_splits)


lemma ver_meu_sorteio_cases:
  "snd (ver_meu_sorteio d session token now) = d
   \<or> (\<exists>s. sorteio_by_token d token = Some s
          \<and> snd (ver_meu_sorteio d session token now)
              = d\<lparr>sorteios :=
                    map (\<lambda>x. if s_id x = s_id s
                             then s\<lparr>s_ultima_visualizacao := Some now,
                                    s_vezes_visualizado := s_vezes_visualizado s + 1\<rparr>
                             else x) (sorteios d)\<rparr>)"
proof (cases "current_user d session")
  case None
  then show ?thesis by (simp add: ver_meu_sorteio_def)
next
  case (Some cu)
  note cu = this
  show ?thesis
  proof (cases "sorteio_by_token d token")
    case None
    then show ?thesis using cu by (simp add: ver_meu_sorteio_def)
  next
    case (Some s)
    note s = this
    show ?thesis
    proof (cases "registrar_visualizacao d s now")
      case None
      then show ?thesis using cu s by (simp add: ver_meu_sorteio_def)
    next
      case (Some r)
      obtain s' d' where r: "r = (s', d')" by (cases r)
      from registrar_Some [OF Some [unfolded r]]
      have "snd (ver_meu_sorteio d session token now) = d
            \<or> snd (ver_meu_sorteio d session token now)
                = d\<lparr>sorteios :=
                      map (\<lambda>x. if s_id x = s_id s
                               then s\<lparr>s_ultima_visualizacao := Some now,
                                      s_vezes_visualizado := s_vezes_visualizado s + 1\<rparr>
                               else x) (sorteios d)\<rparr>"
        using cu s Some r by (auto simp: ver_meu_sorteio_def split: option.splits)
      then show ?thesis using s by blast
    qed
  qed
qed

lemma invariante_registrar:
  assumes "invariante t d" "s \<in> set (sorteios d)"
  shows "invariante t
           (d\<lparr>sorteios :=
                 map (\<lambda>x. if s_id x = s_id s
                          then s\<lparr>s_ultima_visualizacao := Some t,
                                 s_vezes_visualizado := s_vezes_visualizado s + 1\<rparr>
                          else x) (sorteios d)\<rparr>)"
proof -
  let ?s' = "s\<lparr>s_ultima_visualizacao := Some t, s_vezes_visualizado := s_vezes_visualizado s + 1\<rparr>"
  let ?f = "\<lambda>x. if s_id x = s_id s then ?s' else x"
  let ?d = "d\<lparr>sorteios := map ?f (sorteios d)\<rparr>"
  have uniq: "x = s" if "x \<in> set (sorteios d)" "s_id x = s_id s" for x
    using assms that by (auto simp: invariante_def distinct_map inj_on_def)
  have m1: "map s_id (map ?f (sorteios d)) = map s_id (sorteios d)"
    by (induction "sorteios d") auto
  have m2: "map s_token_acesso (map ?f (sorteios d)) = map s_token_acesso (sorteios d)"
    using uniq by (auto simp: map_eq_conv)
  have m3: "map (\<lambda>s. (s_usuario_id s, s_grupo_id s)) (map ?f (sorteios d))
              = map (\<lambda>s. (s_usuario_id s, s_grupo_id s)) (sorteios d)"
    using uniq by (auto simp: map_eq_conv)
  have h1: "distinct (map s_id (sorteios ?d))"
  proof -
    have "distinct (map s_id (sorteios d))" using assms(1) by (simp add: invariante_def)
    then have "distinct (map s_id (map ?f (sorteios d)))" by (simp only: m1)
    then show ?thesis by simp
  qed
  have h2: "distinct (map s_token_acesso (sorteios ?d))"
  proof -
    have "distinct (map s_token_acesso (sorteios d))" using assms(1) by (simp add: invariante_def)
    then have "distinct (map s_token_acesso (map ?f (sorteios d)))" by (simp only: m2)
    then show ?thesis by simp
  qed
  have h3: "distinct (map (\<lambda>s. (s_usuario_id s, s_grupo_id s)) (sorteios ?d))"
  proof -
    have "distinct (map (\<lambda>s. (s_usuario_id s, s_grupo_id s)) (sorteios d))"
      using assms(1) by (simp add: invariante_def)
    then have "distinct (map (\<lambda>s. (s_usuario_id s, s_grupo_id s)) (map ?f (sorteios d)))"
      by (simp only: m3)
    then show ?thesis by simp
  qed
  have h4: "distinct (map (\<lambda>m. (m_usuario_id m, m_grupo_id m)) (membros ?d))"
    using assms(1) by (simp add: invariante_def)
  have ok0: "sorteio_ok t d x" if "x \<in> set (sorteios d)" for x
    using assms(1) that by (simp add: invariante_def list_all_iff)
  have "sorteio_ok t d ?s'"
    using ok0 [OF assms(2)] by (simp add: sorteio_ok_def)
  then have "sorteio_ok t ?d (?f x)" if "x \<in> set (sorteios d)" for x
    using ok0 [OF that] by (auto intro: sorteio_ok_mono)
  then have "\<forall>x\<in>set (sorteios d). (sorteio_ok t ?d \<circ> ?f) x"
    by simp
  then have "list_all (sorteio_ok t ?d) (map ?f (sorteios d))"
    unfolding list_all_iff set_map ball_simps(9) comp_def .
  moreover have "sorteios ?d = map ?f (sorteios d)"
    by simp
  ultimately have h5: "list_all (sorteio_ok t ?d) (sorteios ?d)"
    by (simp only:)
  have "membro_ok ?d x" if "x \<in> set (membros d)" for x
    using assms(1) that by (auto simp: invariante_def list_all_iff intro: membro_ok_mono)
  then have h6: "list_all (membro_ok ?d) (membros ?d)"
    by (simp add: list_all_iff)
  show ?thesis
    unfolding invariante_def using h1 h2 h3 h4 h5 h6 by blast
qed

lemma invariante_ver_meu_sorteio:
  assumes "invariante t d"
  shows "invariante t (snd (ver_meu_sorteio d session token t))"
proof -
  from ver_meu_sorteio_cases [of d session token t]
  show ?thesis
  proof
    assume "snd (ver_meu_sorteio d session token t) = d"
    then show ?thesis using assms by simp
  next
    assume "\<exists>s. sorteio_by_token d token = Some s
          \<and> snd (ver_meu_sorteio d session token t)
              = d\<lparr>sorteios :=
                    map (\<lambda>x. if s_id x = s_id s
                             then s\<lparr>s_ultima_visualizacao := Some t,
                                    s_vezes_visualizado := s_vezes_visualizado s + 1\<rparr>
                             else x) (sorteios d)\<rparr>"
    then obtain s where s: "sorteio_by_token d token = Some s"
      and eq: "snd (ver_meu_sorteio d session token t)
              = d\<lparr>sorteios :=
                    map (\<lambda>x. if s_id x = s_id s
                             then s\<lparr>s_ultima_visualizacao := Some t,
                                    s_vezes_visualizado := s_vezes_visualizado s + 1\<rparr>
                             else x) (sorteios d)\<rparr>"
      by blast
    have "s \<in> set (sorteios d)"
      using s by (auto simp: sorteio_by_token_def find_Some_iff)
    from invariante_registrar [OF assms this] show ?thesis
      using eq by simp
  qed
qed

lemma ver_grupo_snd: "snd (ver_grupo d session gid) = d"
  by (simp add: ver_grupo_def split: option.splits)

lemma api_status_snd: "snd (api_status_sorteio d session gid) = d"
  by (simp add: api_status_sorteio_def Let_def split: option.splits)

lemma invariante_handle: "invariante t d \<Longrightarrow> invariante t (snd (handle req t d))"
  by (cases req)
     (simp_all add: invariante_register invariante_criar_grupo invariante_entrar_grupo
        invariante_realizar invariante_ver_meu_sorteio ver_grupo_snd api_status_snd)

lemma reachable_invariante: "reachable t d \<Longrightarrow> invariante t d"
proof (induction rule: reachable.induct)
  case (init t)
  show ?case by (rule invariante_empty)
next
  case (request t d t' req)
  from request.IH request.hyps(2) have "invariante t' d" by (rule invariante_time)
  then show ?case by (rule invariante_handle)
next
  case (sugestao t d sgs)
  from sugestao.IH show ?case by (rule invariante_sugestoes)
qed

lemma reachable_run_aux:
  "reachable t d \<Longrightarrow> sorted (t # map fst rs) \<Longrightarrow> reachable (last (t # map fst rs)) (run rs d)"
proof (induction rs arbitrary: t d)
  case Nil
  then show ?case by simp
next
  case (Cons r rs)
  obtain t' req where r: "r = (t', req)" by (cases r)
  have "reachable t' (snd (handle req t' d))"
    using Cons.prems r by (intro reachable.request) auto
  moreover have "sorted (t' # map fst rs)" using Cons.prems r by simp
  ultimately have "reachable (last (t' # map fst rs)) (run rs (snd (handle req t' d)))"
    by (rule Cons.IH)
  then show ?case using r by simp
qed

lemma tokens_do_exemplo:
  "token_urlsafe 32 fonte_ana = token_ana"
  "token_urlsafe 32 fonte_bia = token_bia"
  "token_urlsafe 32 fonte_novo = token_novo"
  by (simp_all add: token_urlsafe_def token_bytes_def alfabeto_urlsafe_def
        fonte_ana_def fonte_bia_def fonte_novo_def token_ana_def token_bia_def token_novo_def)

lemmas handler_defs = register_def criar_grupo_def entrar_grupo_def realizar_sorteio_individual_def
  verificar_sorteio_def gravar_sorteio_def
  ver_meu_sorteio_def ver_grupo_def api_status_sorteio_def registrar_visualizacao_def
  current_user_def user_get_def grupo_get_def membro_query_def sorteio_query_def
  sorteio_by_token_def membros_do_grupo_def next_id_def participantes_def random_choice_def
  empty_db_def integer_max_def tokens_do_exemplo Let_def

lemmas exemplo_defs = ana_def bia_def caio_def davi_def natal_def sozinho_def db_grupo_def
  sorteio_ana_def db_exemplo_def db_admin_fora_def token_ana_def token_bia_def token_novo_def
  sorteio_visto_def db_visto_def db_vistas_def sorteio_no_limite_def db_no_limite_def
  sorteio_ana_de_novo_def db_duplo_def

lemma run_cenario_grupo: "run cenario_grupo empty_db = db_grupo"
  by (simp add: cenario_grupo_def handler_defs exemplo_defs)

lemma reachable_run:
  "sorted (map fst rs) \<Longrightarrow> rs \<noteq> [] \<Longrightarrow> reachable (fst (last rs)) (run rs empty_db)"
  using reachable_run_aux [OF reachable.init, of "fst (hd rs)" rs]
  by (cases rs) (auto simp: last_map)

lemma reachable_db_grupo: "reachable 8 db_grupo"
  using reachable_run [of cenario_grupo] run_cenario_grupo
  by (simp add: cenario_grupo_def)

lemma realizar_db_grupo:
  "realizar_sorteio_individual db_grupo (Some 1) 1 0 fonte_ana 9
     = (Json 200 (JObj [(''success'', JBool True),
                        (''amigo'', JObj [(''id'', JInt 2), (''nome'', JStr ''Bia''),
                                          (''email'', JStr ''bia@example.org'')]),
                        (''token'', JStr token_ana),
                        (''redirect'', JStr (url_ver_meu_sorteio token_ana))]),
        db_exemplo)"
  by (simp add: handler_defs exemplo_defs url_ver_meu_sorteio_def)

lemma reachable_db_exemplo: "reachable 9 db_exemplo"
  using reachable.request [OF reachable_db_grupo, of 9 "Realizar_sorteio (Some 1) 1 0 fonte_ana"]
  by (simp add: realizar_db_grupo)

lemma find_None_ball: "find P xs = None \<longleftrightarrow> (\<forall>x\<in>set xs. \<not> P x)"
  by (auto simp: find_None_iff)

lemma find_Some_mem: "find P xs = Some x \<Longrightarrow> x \<in> set xs \<and> P x"
  by (auto simp: find_Some_iff)

lemma find_Some_ex: "(\<exists>x\<in>set xs. P x) \<Longrightarrow> \<exists>x. find P xs = Some x"
  by (cases "find P xs") (auto simp: find_None_iff)

lemma membro_query_ex:
  assumes "\<exists>m\<in>set (membros d). m_usuario_id m = u \<and> m_grupo_id m = g"
  shows "\<exists>m. membro_query d u g = Some m"
  unfolding membro_query_def using assms by (rule find_Some_ex)

lemma sorteio_query_ex:
  assumes "\<exists>s\<in>set (sorteios d). s_usuario_id s = u \<and> s_grupo_id s = g"
  shows "\<exists>s. sorteio_query d u g = Some s"
  unfolding sorteio_query_def using assms by (rule find_Some_ex)

lemma sorteio_query_Some:
  "sorteio_query d u g = Some s
     \<Longrightarrow> s \<in> set (sorteios d) \<and> s_usuario_id s = u \<and> s_grupo_id s = g"
  by (auto simp: sorteio_query_def find_Some_iff)

lemma participantes_Nil:
  "participantes d grupo_id usuario_id = []
     \<longleftrightarrow> (\<forall>m\<in>set (membros d). m_grupo_id m = grupo_id \<longrightarrow> m_usuario_id m = usuario_id)"
  by (auto simp: participantes_def membros_do_grupo_def filter_empty_conv)

lemma mensagens_distintas:
  "msg_nao_membro \<noteq> msg_ja_sorteou \<and> msg_nao_membro \<noteq> msg_sem_participantes
   \<and> msg_ja_sorteou \<noteq> msg_sem_participantes"
  by (simp add: msg_nao_membro_def msg_ja_sorteou_def msg_sem_participantes_def voce_def nao_def)

lemma find_unique:
  assumes "distinct (map f xs)" and "x \<in> set xs"
  shows "find (\<lambda>y. f y = f x) xs = Some x"
  using assms
proof (induction xs)
  case Nil
  then show ?case by simp
next
  case (Cons a xs)
  show ?case
  proof (cases "a = x")
    case True
    then show ?thesis by simp
  next
    case False
    with Cons.prems have "x \<in> set xs" and "f a \<noteq> f x" by auto
    with Cons show ?thesis by simp
  qed
qed

lemma reachable_sorteio_ok:
  assumes "reachable t d" and "s \<in> set (sorteios d)"
  shows "sorteio_ok t d s"
  using reachable_invariante [OF assms(1)] assms(2) by (simp add: invariante_def list_all_iff)

lemma reachable_sorteio_query:
  assumes "reachable t d" and "s \<in> set (sorteios d)"
  shows "sorteio_query d (s_usuario_id s) (s_grupo_id s) = Some s"
proof -
  have "distinct (map (\<lambda>s. (s_usuario_id s, s_grupo_id s)) (sorteios d))"
    using reachable_invariante [OF assms(1)] by (simp add: invariante_def)
  from find_unique [OF this assms(2)] show ?thesis
    by (simp add: sorteio_query_def)
qed












lemma those_map_Some:
  assumes "\<forall>x\<in>set xs. f x \<noteq> None"
  shows "those (map f xs) = Some (map (\<lambda>x. the (f x)) xs)"
  using assms by (induction xs) auto

lemma membros_do_grupo_distinct:
  assumes "distinct (map (\<lambda>m. (m_usuario_id m, m_grupo_id m)) (membros d))"
  shows "distinct (map m_usuario_id (membros_do_grupo d gid))"
proof -
  have "distinct (map (\<lambda>m. (m_usuario_id m, m_grupo_id m)) (membros_do_grupo d gid))"
    unfolding membros_do_grupo_def using assms by (rule distinct_map_filter)
  then show ?thesis
    by (auto simp: distinct_map inj_on_def membros_do_grupo_def)
qed

lemma membro_json_status:
  assumes "user_get d (m_usuario_id m) = Some u"
  shows "membro_json d (status_do_membro d grupo m)
           = Some (JObj [(''id'', JInt (m_id m)),
                         (''usuario_id'', JInt (m_usuario_id m)),
                         (''nome'', JStr (u_nome u)),
                         (''email'', JStr (u_email u)),
                         (''ja_sorteou'', JBool (sorteio_query d (m_usuario_id m) (g_id grupo) \<noteq> None)),
                         (''data_sorteio'',
                            (case sorteio_query d (m_usuario_id m) (g_id grupo) of
                               Some s \<Rightarrow> JIso (s_data_sorteio s) | None \<Rightarrow> JNull)),
                         (''amigo_sorteado'',
                            (case sorteio_query d (m_usuario_id m) (g_id grupo) of
                               Some s \<Rightarrow> (case user_get d (s_amigo_sorteado_id s) of
                                            Some a \<Rightarrow> JStr (u_nome a) | None \<Rightarrow> JNull)
                             | None \<Rightarrow> JNull))])"
  using assms
  by (simp add: membro_json_def status_do_membro_def Let_def split: option.splits)

lemma api_status_db_exemplo:
  "api_status_sorteio db_exemplo (Some 1) 1
     = (Json 200
          (JObj [(''grupo'', JObj [(''id'', JInt 1), (''nome'', JStr ''Natal''),
                                   (''total_membros'', JInt 3)]),
                 (''membros'',
                    JArr [JObj [(''id'', JInt 1), (''usuario_id'', JInt 1),
                                (''nome'', JStr ''Ana''), (''email'', JStr ''ana@example.org''),
                                (''ja_sorteou'', JBool True), (''data_sorteio'', JIso 9),
                                (''amigo_sorteado'', JStr ''Bia'')],
                          JObj [(''id'', JInt 2), (''usuario_id'', JInt 2),
                                (''nome'', JStr ''Bia''), (''email'', JStr ''bia@example.org''),
                                (''ja_sorteou'', JBool False), (''data_sorteio'', JNull),
                                (''amigo_sorteado'', JNull)],
                          JObj [(''id'', JInt 3), (''usuario_id'', JInt 3),
                                (''nome'', JStr ''Caio''), (''email'', JStr ''caio@example.org''),
                                (''ja_sorteou'', JBool False), (''data_sorteio'', JNull),
                                (''amigo_sorteado'', JNull)]])]),
        db_exemplo)"
  by (simp add: handler_defs exemplo_defs status_sorteio_membros_def status_do_membro_def
        membro_json_def)





















lemma sobrepostos_db_grupo:
  "sorteios_sobrepostos db_grupo (Some 1, 1, 0, fonte_ana) (Some 1, 1, 1, fonte_bia) 9
     = (Json 200 (JObj [(''success'', JBool True),
                        (''amigo'', JObj [(''id'', JInt 2), (''nome'', JStr ''Bia''),
                                          (''email'', JStr ''bia@example.org'')]),
                        (''token'', JStr token_ana),
                        (''redirect'', JStr (url_ver_meu_sorteio token_ana))]),
        Json 200 (JObj [(''success'', JBool True),
                        (''amigo'', JObj [(''id'', JInt 3), (''nome'', JStr ''Caio''),
                                          (''email'', JStr ''caio@example.org'')]),
                        (''token'', JStr token_bia),
                        (''redirect'', JStr (url_ver_meu_sorteio token_bia))]),
        db_duplo)"
  by (simp add: sorteios_sobrepostos_def handler_defs exemplo_defs url_ver_meu_sorteio_def)

lemma participantes_escolha:
  assumes "participantes d grupo_id uid \<noteq> []"
  shows "random_choice rnd (participantes d grupo_id uid)
           = Some (user_get d (m_usuario_id
               (filter (\<lambda>m. m_usuario_id m \<noteq> uid) (membros_do_grupo d grupo_id)
                  ! (rnd mod length (filter (\<lambda>m. m_usuario_id m \<noteq> uid)
                                       (membros_do_grupo d grupo_id))))))"
proof -
  let ?pool = "filter (\<lambda>m. m_usuario_id m \<noteq> uid) (membros_do_grupo d grupo_id)"
  have ne: "?pool \<noteq> []" using assms by (simp add: participantes_def)
  then have "rnd mod length ?pool < length ?pool" by simp
  then show ?thesis
    using ne by (simp add: random_choice_def participantes_def)
qed

lemma pool_Nil:
  "filter (\<lambda>m. m_usuario_id m \<noteq> uid) (membros_do_grupo d grupo_id) = []
     \<longleftrightarrow> participantes d grupo_id uid = []"
  by (simp add: participantes_def)













section \<open>The claims\<close>

text \<open>
  Claim C1, as stated, at two overlapping requests. Ana sends the draw request twice;
  both requests run their checks on \<open>db_grupo\<close>, where she has no draw, before either
  commits. Both are answered 200 and the table ends with two rows for (Ana, Natal).
\<close>

theorem dois_sorteios_sobrepostos:
  "reachable 8 db_grupo
   \<and> sorteios db_grupo = []
   \<and> sorteios_sobrepostos db_grupo (Some 1, 1, 0, fonte_ana) (Some 1, 1, 1, fonte_bia) 9
     = (Json 200 (JObj [(''success'', JBool True),
                        (''amigo'', JObj [(''id'', JInt 2), (''nome'', JStr ''Bia''),
                                          (''email'', JStr ''bia@example.org'')]),
                        (''token'', JStr token_ana),
                        (''redirect'', JStr (url_ver_meu_sorteio token_ana))]),
        Json 200 (JObj [(''success'', JBool True),
                        (''amigo'', JObj [(''id'', JInt 3), (''nome'', JStr ''Caio''),
                                          (''email'', JStr ''caio@example.org'')]),
                        (''token'', JStr token_bia),
                        (''redirect'', JStr (url_ver_meu_sorteio token_bia))]),
        db_duplo)
   \<and> map (\<lambda>s. (s_usuario_id s, s_grupo_id s)) (sorteios db_duplo) = [(1, 1), (1, 1)]
   \<and> \<not> distinct (map (\<lambda>s. (s_usuario_id s, s_grupo_id s)) (sorteios db_duplo))"
  using reachable_db_grupo sobrepostos_db_grupo by (simp add: exemplo_defs)

text \<open>
  Claim C1, amended. On any database: when the logged-in user is a member of the group
  and a draw of that user in that group exists, \<^verbatim>\<open>realizar_sorteio_individual\<close> answers
  400 with the already-drawn message and a redirect to the token of such a draw, and
  returns the database unchanged (no row is inserted). In every database that requests
  served one at a time reach, no two draws have the same (\<^verbatim>\<open>usuario_id\<close>,
  \<^verbatim>\<open>grupo_id\<close>), and the redirect of the owner's repeated request is to the token of
  the one draw there is.
\<close>

theorem sorteio_existente_redireciona:
  "(current_user d session = Some cu \<longrightarrow> grupo_get d grupo_id = Some grupo \<longrightarrow>
      (\<exists>m\<in>set (membros d). m_usuario_id m = u_id cu \<and> m_grupo_id m = grupo_id) \<longrightarrow>
      (\<exists>s\<in>set (sorteios d). s_usuario_id s = u_id cu \<and> s_grupo_id s = grupo_id) \<longrightarrow>
      (\<exists>s\<in>set (sorteios d). s_usuario_id s = u_id cu \<and> s_grupo_id s = grupo_id \<and>
         realizar_sorteio_individual d session grupo_id rnd fonte now
           = (Json 400 (JObj [(''error'', JStr msg_ja_sorteou),
                              (''redirect'', JStr (url_ver_meu_sorteio (s_token_acesso s)))]),
              d)))
   \<and> (reachable t d \<longrightarrow>
        distinct (map (\<lambda>s. (s_usuario_id s, s_grupo_id s)) (sorteios d))
        \<and> (\<forall>s\<in>set (sorteios d). \<forall>session cu rnd fonte now.
              current_user d session = Some cu \<longrightarrow> u_id cu = s_usuario_id s \<longrightarrow>
              realizar_sorteio_individual d session (s_grupo_id s) rnd fonte now
                = (Json 400 (JObj [(''error'', JStr msg_ja_sorteou),
                                   (''redirect'', JStr (url_ver_meu_sorteio (s_token_acesso s)))]),
                   d)))"
proof -
  have first: "\<exists>s\<in>set (sorteios d). s_usuario_id s = u_id cu \<and> s_grupo_id s = grupo_id \<and>
         realizar_sorteio_individual d session grupo_id rnd fonte now
           = (Json 400 (JObj [(''error'', JStr msg_ja_sorteou),
                              (''redirect'', JStr (url_ver_meu_sorteio (s_token_acesso s)))]),
              d)"
    if cu: "current_user d session = Some cu" and g: "grupo_get d grupo_id = Some grupo"
      and p1: "\<exists>m\<in>set (membros d). m_usuario_id m = u_id cu \<and> m_grupo_id m = grupo_id"
      and p2: "\<exists>s\<in>set (sorteios d). s_usuario_id s = u_id cu \<and> s_grupo_id s = grupo_id"
  proof -
    obtain m where m: "membro_query d (u_id cu) grupo_id = Some m"
      using membro_query_ex [OF p1] by blast
    obtain s where s: "sorteio_query d (u_id cu) grupo_id = Some s"
      using sorteio_query_ex [OF p2] by blast
    have "s \<in> set (sorteios d) \<and> s_usuario_id s = u_id cu \<and> s_grupo_id s = grupo_id"
      using s by (rule sorteio_query_Some)
    moreover have "realizar_sorteio_individual d session grupo_id rnd fonte now
           = (Json 400 (JObj [(''error'', JStr msg_ja_sorteou),
                              (''redirect'', JStr (url_ver_meu_sorteio (s_token_acesso s)))]),
              d)"
      using cu g m s by (simp add: realizar_sorteio_individual_def)
    ultimately show ?thesis by blast
  qed
  have uniq: "distinct (map (\<lambda>s. (s_usuario_id s, s_grupo_id s)) (sorteios d))"
    if "reachable t d"
    using reachable_invariante [OF that] by (simp add: invariante_def)
  have again: "realizar_sorteio_individual d session (s_grupo_id s) rnd fonte now
                 = (Json 400 (JObj [(''error'', JStr msg_ja_sorteou),
                                    (''redirect'', JStr (url_ver_meu_sorteio (s_token_acesso s)))]),
                    d)"
    if r: "reachable t d" and s: "s \<in> set (sorteios d)"
      and cu: "current_user d session = Some cu"
      and own: "u_id cu = s_usuario_id s" for s session cu rnd fonte now
  proof -
    have ok: "sorteio_ok t d s" using r s by (rule reachable_sorteio_ok)
    obtain g where g: "grupo_get d (s_grupo_id s) = Some g"
      using ok by (auto simp: sorteio_ok_def)
    obtain m where m: "membro_query d (u_id cu) (s_grupo_id s) = Some m"
      using ok own by (auto simp: sorteio_ok_def)
    have q: "sorteio_query d (u_id cu) (s_grupo_id s) = Some s"
      using reachable_sorteio_query [OF r s] own by simp
    show ?thesis
      using cu g m q by (simp add: realizar_sorteio_individual_def)
  qed
  show ?thesis
    using first uniq again by blast
qed

theorem sorteio_existente_redireciona_witness:
  "current_user db_exemplo (Some 1) = Some ana
   \<and> grupo_get db_exemplo 1 = Some natal
   \<and> map (\<lambda>m. (m_usuario_id m, m_grupo_id m)) (membros db_exemplo) = [(1, 1), (2, 1), (3, 1), (4, 2)]
   \<and> sorteios db_exemplo = [sorteio_ana]
   \<and> s_usuario_id sorteio_ana = 1 \<and> s_grupo_id sorteio_ana = 1
   \<and> s_token_acesso sorteio_ana = token_ana
   \<and> realizar_sorteio_individual db_exemplo (Some 1) 1 1 fonte_novo 10
        = (Json 400 (JObj [(''error'', JStr msg_ja_sorteou),
                           (''redirect'', JStr (url_ver_meu_sorteio token_ana))]), db_exemplo)
   \<and> reachable 9 db_exemplo
   \<and> distinct (map (\<lambda>s. (s_usuario_id s, s_grupo_id s)) (sorteios db_exemplo))"
proof -
  have cu: "current_user db_exemplo (Some 1) = Some ana"
    by (simp add: current_user_def user_get_def exemplo_defs)
  have g: "grupo_get db_exemplo 1 = Some natal"
    by (simp add: grupo_get_def exemplo_defs)
  have ms: "map (\<lambda>m. (m_usuario_id m, m_grupo_id m)) (membros db_exemplo)
              = [(1, 1), (2, 1), (3, 1), (4, 2)]"
    and l: "sorteios db_exemplo = [sorteio_ana]"
    and f: "s_usuario_id sorteio_ana = 1" "s_grupo_id sorteio_ana = 1"
      "s_token_acesso sorteio_ana = token_ana"
    by (simp_all add: db_exemplo_def db_grupo_def sorteio_ana_def)
  have p1: "\<exists>m\<in>set (membros db_exemplo). m_usuario_id m = u_id ana \<and> m_grupo_id m = 1"
    and p2: "\<exists>s\<in>set (sorteios db_exemplo). s_usuario_id s = u_id ana \<and> s_grupo_id s = 1"
    by (simp_all add: db_exemplo_def db_grupo_def sorteio_ana_def ana_def)
  note th = sorteio_existente_redireciona [of db_exemplo "Some 1" ana 1 natal 1 fonte_novo 10 9]
  from th cu g p1 p2
  have "\<exists>s\<in>set (sorteios db_exemplo). s_usuario_id s = u_id ana \<and> s_grupo_id s = 1 \<and>
         realizar_sorteio_individual db_exemplo (Some 1) 1 1 fonte_novo 10
           = (Json 400 (JObj [(''error'', JStr msg_ja_sorteou),
                              (''redirect'', JStr (url_ver_meu_sorteio (s_token_acesso s)))]),
              db_exemplo)"
    by blast
  then have r: "realizar_sorteio_individual db_exemplo (Some 1) 1 1 fonte_novo 10
        = (Json 400 (JObj [(''error'', JStr msg_ja_sorteou),
                           (''redirect'', JStr (url_ver_meu_sorteio token_ana))]), db_exemplo)"
    by (simp add: l f)
  have u: "distinct (map (\<lambda>s. (s_usuario_id s, s_grupo_id s)) (sorteios db_exemplo))"
    using th reachable_db_exemplo by blast
  show ?thesis
    using cu g ms l f r reachable_db_exemplo u by blast
qed

text \<open>
  Claim C2. Whenever \<^verbatim>\<open>realizar_sorteio_individual\<close> succeeds (HTTP 200), it has
  appended exactly one draw, owned by the logged-in user in the requested group, whose
  \<^verbatim>\<open>amigo_sorteado_id\<close> differs from its \<^verbatim>\<open>usuario_id\<close>: the recipient is one of
  the users of the pool \<^verbatim>\<open>participantes\<close>, and the pool does not hold the drawing
  user.
\<close>

theorem sorteado_nao_e_o_proprio:
  assumes "realizar_sorteio_individual d session grupo_id rnd fonte now = (Json 200 body, d')"
  shows "\<exists>cu s. current_user d session = Some cu
           \<and> sorteios d' = sorteios d @ [s]
           \<and> s_usuario_id s = u_id cu
           \<and> s_grupo_id s = grupo_id
           \<and> s_amigo_sorteado_id s \<noteq> s_usuario_id s
           \<and> s_amigo_sorteado_id s
                \<in> {u_id a | a. Some a \<in> set (participantes d grupo_id (u_id cu))}
           \<and> u_id cu \<notin> {u_id a | a. Some a \<in> set (participantes d grupo_id (u_id cu))}"
proof -
  from realizar_success [OF assms] obtain cu amigo where
    cu: "current_user d session = Some cu" and
    ne: "participantes d grupo_id (u_id cu) \<noteq> []" and
    ch: "random_choice rnd (participantes d grupo_id (u_id cu)) = Some (Some amigo)" and
    d': "d' = d\<lparr>sorteios := sorteios d @
                [\<lparr>s_id = next_id (map s_id (sorteios d)), s_usuario_id = u_id cu,
                  s_grupo_id = grupo_id, s_amigo_sorteado_id = u_id amigo, s_data_sorteio = now,
                  s_ultima_visualizacao = None, s_vezes_visualizado = 0,
                  s_token_acesso = token_urlsafe 32 fonte\<rparr>]\<rparr>"
    by blast
  have mem: "Some amigo \<in> set (participantes d grupo_id (u_id cu))"
    using ch by (rule random_choice_mem)
  have excl: "u_id cu \<notin> {u_id a | a. Some a \<in> set (participantes d grupo_id (u_id cu))}"
    using participantes_mem by fastforce
  have "u_id amigo \<noteq> u_id cu"
    using participantes_mem [OF mem] by simp
  then show ?thesis
    using cu d' mem excl by auto
qed

theorem sorteado_nao_e_o_proprio_witness:
  "realizar_sorteio_individual db_grupo (Some 1) 1 0 fonte_ana 9
     = (Json 200 (JObj [(''success'', JBool True),
                        (''amigo'', JObj [(''id'', JInt 2), (''nome'', JStr ''Bia''),
                                          (''email'', JStr ''bia@example.org'')]),
                        (''token'', JStr token_ana),
                        (''redirect'', JStr (url_ver_meu_sorteio token_ana))]),
        db_exemplo)
   \<and> (\<exists>cu s. current_user db_grupo (Some 1) = Some cu
           \<and> sorteios db_exemplo = sorteios db_grupo @ [s]
           \<and> s_usuario_id s = u_id cu
           \<and> s_grupo_id s = 1
           \<and> s_amigo_sorteado_id s \<noteq> s_usuario_id s
           \<and> s_amigo_sorteado_id s
                \<in> {u_id a | a. Some a \<in> set (participantes db_grupo 1 (u_id cu))}
           \<and> u_id cu \<notin> {u_id a | a. Some a \<in> set (participantes db_grupo 1 (u_id cu))})"
  using sorteado_nao_e_o_proprio [OF realizar_db_grupo] realizar_db_grupo by simp

text \<open>
  Claim C3. Whenever \<^verbatim>\<open>realizar_sorteio_individual\<close> succeeds (HTTP 200), the
  \<^verbatim>\<open>amigo_sorteado_id\<close> of the draw it appended is the \<^verbatim>\<open>usuario_id\<close> of a
  MembroGrupo row of that group, in the database the draw was made on (the request
  leaves the memberships as they were).
\<close>

theorem sorteado_e_membro_do_grupo:
  assumes "realizar_sorteio_individual d session grupo_id rnd fonte now = (Json 200 body, d')"
  shows "\<exists>s m. sorteios d' = sorteios d @ [s]
           \<and> membros d' = membros d
           \<and> m \<in> set (membros d)
           \<and> m_grupo_id m = grupo_id
           \<and> m_usuario_id m = s_amigo_sorteado_id s"
proof -
  from realizar_success [OF assms] obtain cu amigo where
    cu: "current_user d session = Some cu" and
    ne: "participantes d grupo_id (u_id cu) \<noteq> []" and
    ch: "random_choice rnd (participantes d grupo_id (u_id cu)) = Some (Some amigo)" and
    d': "d' = d\<lparr>sorteios := sorteios d @
                [\<lparr>s_id = next_id (map s_id (sorteios d)), s_usuario_id = u_id cu,
                  s_grupo_id = grupo_id, s_amigo_sorteado_id = u_id amigo, s_data_sorteio = now,
                  s_ultima_visualizacao = None, s_vezes_visualizado = 0,
                  s_token_acesso = token_urlsafe 32 fonte\<rparr>]\<rparr>"
    by blast
  have "Some amigo \<in> set (participantes d grupo_id (u_id cu))"
    using ch by (rule random_choice_mem)
  from participantes_mem [OF this] obtain m where
    "m \<in> set (membros d)" "m_usuario_id m = u_id amigo" "m_grupo_id m = grupo_id"
    by blast
  then show ?thesis
    using d' by auto
qed

theorem sorteado_e_membro_do_grupo_witness:
  "realizar_sorteio_individual db_grupo (Some 1) 1 0 fonte_ana 9
     = (Json 200 (JObj [(''success'', JBool True),
                        (''amigo'', JObj [(''id'', JInt 2), (''nome'', JStr ''Bia''),
                                          (''email'', JStr ''bia@example.org'')]),
                        (''token'', JStr token_ana),
                        (''redirect'', JStr (url_ver_meu_sorteio token_ana))]),
        db_exemplo)
   \<and> (\<exists>s m. sorteios db_exemplo = sorteios db_grupo @ [s]
           \<and> membros db_exemplo = membros db_grupo
           \<and> m \<in> set (membros db_grupo)
           \<and> m_grupo_id m = 1
           \<and> m_usuario_id m = s_amigo_sorteado_id s)"
  using sorteado_e_membro_do_grupo [OF realizar_db_grupo] realizar_db_grupo by simp

text \<open>
  Claim C4. For a logged-in user and an existing group, \<^verbatim>\<open>realizar_sorteio_individual\<close>
  checks in this order: no membership row of the user in the group gives 403 with the
  not-a-member message, whatever draws and members there are; otherwise an existing draw
  of the user in the group gives 400 with the already-drawn message and a redirect to that
  draw's token, whatever the pool; otherwise an empty pool (no membership row of the group
  for another user) gives 400 with the no-candidates message. Only when all three checks
  pass is a recipient chosen: the membership row at index \<open>rnd mod length pool\<close> of the
  pool. If that row's user does not exist, or if the generated token is already stored,
  the answer is 500 and nothing is written; in every other case the answer is the 200
  JSON with the recipient's id, name and e-mail, the token and the redirect, and exactly
  one draw row for (user, group, recipient, now, never viewed, 0 views, token) is
  appended. In particular, when every membership of the group points to an existing user
  and the token is not stored, the request succeeds with a recipient who is another
  member of the group. The three error messages are pairwise different, and every error
  leaves the database as it was.
\<close>

theorem ordem_das_verificacoes:
  assumes "current_user d session = Some cu" and "grupo_get d grupo_id = Some grupo"
  shows
    "((\<forall>m\<in>set (membros d). \<not> (m_usuario_id m = u_id cu \<and> m_grupo_id m = grupo_id)) \<longrightarrow>
        realizar_sorteio_individual d session grupo_id rnd fonte now
          = (Json 403 (JObj [(''error'', JStr msg_nao_membro)]), d))
     \<and> ((\<exists>m\<in>set (membros d). m_usuario_id m = u_id cu \<and> m_grupo_id m = grupo_id) \<longrightarrow>
        (\<exists>s\<in>set (sorteios d). s_usuario_id s = u_id cu \<and> s_grupo_id s = grupo_id) \<longrightarrow>
        (\<exists>s\<in>set (sorteios d). s_usuario_id s = u_id cu \<and> s_grupo_id s = grupo_id \<and>
           realizar_sorteio_individual d session grupo_id rnd fonte now
             = (Json 400 (JObj [(''error'', JStr msg_ja_sorteou),
                                (''redirect'', JStr (url_ver_meu_sorteio (s_token_acesso s)))]),
                d)))
     \<and> ((\<exists>m\<in>set (membros d). m_usuario_id m = u_id cu \<and> m_grupo_id m = grupo_id) \<longrightarrow>
        (\<forall>s\<in>set (sorteios d). \<not> (s_usuario_id s = u_id cu \<and> s_grupo_id s = grupo_id)) \<longrightarrow>
        (\<forall>m\<in>set (membros d). m_grupo_id m = grupo_id \<longrightarrow> m_usuario_id m = u_id cu) \<longrightarrow>
        realizar_sorteio_individual d session grupo_id rnd fonte now
          = (Json 400 (JObj [(''error'', JStr msg_sem_participantes)]), d))
     \<and> ((\<exists>m\<in>set (membros d). m_usuario_id m = u_id cu \<and> m_grupo_id m = grupo_id) \<longrightarrow>
        (\<forall>s\<in>set (sorteios d). \<not> (s_usuario_id s = u_id cu \<and> s_grupo_id s = grupo_id)) \<longrightarrow>
        (\<exists>m\<in>set (membros d). m_grupo_id m = grupo_id \<and> m_usuario_id m \<noteq> u_id cu) \<longrightarrow>
        (case user_get d (m_usuario_id
                (filter (\<lambda>m. m_usuario_id m \<noteq> u_id cu) (membros_do_grupo d grupo_id)
                   ! (rnd mod length (filter (\<lambda>m. m_usuario_id m \<noteq> u_id cu)
                                        (membros_do_grupo d grupo_id))))) of
           None \<Rightarrow>
             realizar_sorteio_individual d session grupo_id rnd fonte now = (Server_error, d)
         | Some amigo \<Rightarrow>
             if token_urlsafe 32 fonte \<in> set (map s_token_acesso (sorteios d))
             then realizar_sorteio_individual d session grupo_id rnd fonte now = (Server_error, d)
             else realizar_sorteio_individual d session grupo_id rnd fonte now
                = (Json 200 (JObj [(''success'', JBool True),
                                   (''amigo'', JObj [(''id'', JInt (u_id amigo)),
                                                     (''nome'', JStr (u_nome amigo)),
                                                     (''email'', JStr (u_email amigo))]),
                                   (''token'', JStr (token_urlsafe 32 fonte)),
                                   (''redirect'', JStr (url_ver_meu_sorteio (token_urlsafe 32 fonte)))]),
                   d\<lparr>sorteios := sorteios d @
                       [\<lparr>s_id = next_id (map s_id (sorteios d)),
                         s_usuario_id = u_id cu,
                         s_grupo_id = grupo_id,
                         s_amigo_sorteado_id = u_id amigo,
                         s_data_sorteio = now,
                         s_ultima_visualizacao = None,
                         s_vezes_visualizado = 0,
                         s_token_acesso = token_urlsafe 32 fonte\<rparr>]\<rparr>)))
     \<and> ((\<exists>m\<in>set (membros d). m_usuario_id m = u_id cu \<and> m_grupo_id m = grupo_id) \<longrightarrow>
        (\<forall>s\<in>set (sorteios d). \<not> (s_usuario_id s = u_id cu \<and> s_grupo_id s = grupo_id)) \<longrightarrow>
        (\<exists>m\<in>set (membros d). m_grupo_id m = grupo_id \<and> m_usuario_id m \<noteq> u_id cu) \<longrightarrow>
        (\<forall>m\<in>set (membros d). m_grupo_id m = grupo_id \<longrightarrow> user_get d (m_usuario_id m) \<noteq> None) \<longrightarrow>
        token_urlsafe 32 fonte \<notin> set (map s_token_acesso (sorteios d)) \<longrightarrow>
        (\<exists>amigo\<in>set (users d). \<exists>m\<in>set (membros d).
            m_grupo_id m = grupo_id \<and> m_usuario_id m = u_id amigo \<and> u_id amigo \<noteq> u_id cu
            \<and> realizar_sorteio_individual d session grupo_id rnd fonte now
                = (Json 200 (JObj [(''success'', JBool True),
                                   (''amigo'', JObj [(''id'', JInt (u_id amigo)),
                                                     (''nome'', JStr (u_nome amigo)),
                                                     (''email'', JStr (u_email amigo))]),
                                   (''token'', JStr (token_urlsafe 32 fonte)),
                                   (''redirect'', JStr (url_ver_meu_sorteio (token_urlsafe 32 fonte)))]),
                   d\<lparr>sorteios := sorteios d @
                       [\<lparr>s_id = next_id (map s_id (sorteios d)),
                         s_usuario_id = u_id cu,
                         s_grupo_id = grupo_id,
                         s_amigo_sorteado_id = u_id amigo,
                         s_data_sorteio = now,
                         s_ultima_visualizacao = None,
                         s_vezes_visualizado = 0,
                         s_token_acesso = token_urlsafe 32 fonte\<rparr>]\<rparr>)))
     \<and> msg_nao_membro \<noteq> msg_ja_sorteou \<and> msg_nao_membro \<noteq> msg_sem_participantes
     \<and> msg_ja_sorteou \<noteq> msg_sem_participantes"
proof -
  let ?r = "realizar_sorteio_individual d session grupo_id rnd fonte now"
  let ?membro = "\<exists>m\<in>set (membros d). m_usuario_id m = u_id cu \<and> m_grupo_id m = grupo_id"
  let ?sorteou = "\<exists>s\<in>set (sorteios d). s_usuario_id s = u_id cu \<and> s_grupo_id s = grupo_id"
  let ?outros = "\<exists>m\<in>set (membros d). m_grupo_id m = grupo_id \<and> m_usuario_id m \<noteq> u_id cu"
  let ?pool = "filter (\<lambda>m. m_usuario_id m \<noteq> u_id cu) (membros_do_grupo d grupo_id)"
  let ?escolhido = "?pool ! (rnd mod length ?pool)"
  let ?ok = "\<lambda>amigo. (Json 200 (JObj [(''success'', JBool True),
                                   (''amigo'', JObj [(''id'', JInt (u_id amigo)),
                                                     (''nome'', JStr (u_nome amigo)),
                                                     (''email'', JStr (u_email amigo))]),
                                   (''token'', JStr (token_urlsafe 32 fonte)),
                                   (''redirect'', JStr (url_ver_meu_sorteio (token_urlsafe 32 fonte)))]),
                   d\<lparr>sorteios := sorteios d @
                       [\<lparr>s_id = next_id (map s_id (sorteios d)),
                         s_usuario_id = u_id cu,
                         s_grupo_id = grupo_id,
                         s_amigo_sorteado_id = u_id amigo,
                         s_data_sorteio = now,
                         s_ultima_visualizacao = None,
                         s_vezes_visualizado = 0,
                         s_token_acesso = token_urlsafe 32 fonte\<rparr>]\<rparr>)"
  have c1: "?r = (Json 403 (JObj [(''error'', JStr msg_nao_membro)]), d)" if "\<not> ?membro"
  proof -
    have "membro_query d (u_id cu) grupo_id = None"
      using that by (simp add: membro_query_def find_None_ball)
    then show ?thesis
      using assms by (simp add: realizar_sorteio_individual_def)
  qed
  have c2: "\<exists>s\<in>set (sorteios d). s_usuario_id s = u_id cu \<and> s_grupo_id s = grupo_id \<and>
              ?r = (Json 400 (JObj [(''error'', JStr msg_ja_sorteou),
                      (''redirect'', JStr (url_ver_meu_sorteio (s_token_acesso s)))]), d)"
    if p1: "?membro" and p2: "?sorteou"
  proof -
    obtain m where m: "membro_query d (u_id cu) grupo_id = Some m"
      using membro_query_ex [OF p1] by blast
    obtain s where s: "sorteio_query d (u_id cu) grupo_id = Some s"
      using sorteio_query_ex [OF p2] by blast
    have "s \<in> set (sorteios d) \<and> s_usuario_id s = u_id cu \<and> s_grupo_id s = grupo_id"
      using s by (rule sorteio_query_Some)
    moreover have "?r = (Json 400 (JObj [(''error'', JStr msg_ja_sorteou),
                      (''redirect'', JStr (url_ver_meu_sorteio (s_token_acesso s)))]), d)"
      using assms m s by (simp add: realizar_sorteio_individual_def)
    ultimately show ?thesis by blast
  qed
  have c3: "?r = (Json 400 (JObj [(''error'', JStr msg_sem_participantes)]), d)"
    if p1: "?membro" and p2: "\<not> ?sorteou"
      and p3: "\<forall>m\<in>set (membros d). m_grupo_id m = grupo_id \<longrightarrow> m_usuario_id m = u_id cu"
  proof -
    obtain m where m: "membro_query d (u_id cu) grupo_id = Some m"
      using membro_query_ex [OF p1] by blast
    have s: "sorteio_query d (u_id cu) grupo_id = None"
      using p2 by (simp add: sorteio_query_def find_None_ball)
    have "participantes d grupo_id (u_id cu) = []"
      using p3 by (simp add: participantes_Nil)
    then show ?thesis
      using assms m s by (simp add: realizar_sorteio_individual_def)
  qed
  have c4: "case user_get d (m_usuario_id ?escolhido) of
              None \<Rightarrow> ?r = (Server_error, d)
            | Some amigo \<Rightarrow>
                if token_urlsafe 32 fonte \<in> set (map s_token_acesso (sorteios d))
                then ?r = (Server_error, d) else ?r = ?ok amigo"
    if p1: "?membro" and p2: "\<not> ?sorteou" and p3: "?outros"
  proof -
    obtain m where m: "membro_query d (u_id cu) grupo_id = Some m"
      using membro_query_ex [OF p1] by blast
    have s: "sorteio_query d (u_id cu) grupo_id = None"
      using p2 by (simp add: sorteio_query_def find_None_ball)
    have ne: "participantes d grupo_id (u_id cu) \<noteq> []"
      using p3 by (auto simp: participantes_Nil)
    note ch = participantes_escolha [OF ne, of rnd]
    show ?thesis
      using assms m s ne ch
      by (simp add: realizar_sorteio_individual_def split: option.splits)
  qed
  have c5: "\<exists>amigo\<in>set (users d). \<exists>m\<in>set (membros d).
            m_grupo_id m = grupo_id \<and> m_usuario_id m = u_id amigo \<and> u_id amigo \<noteq> u_id cu
            \<and> ?r = ?ok amigo"
    if p1: "?membro" and p2: "\<not> ?sorteou" and p3: "?outros"
      and p4: "\<forall>m\<in>set (membros d). m_grupo_id m = grupo_id \<longrightarrow> user_get d (m_usuario_id m) \<noteq> None"
      and p5: "token_urlsafe 32 fonte \<notin> set (map s_token_acesso (sorteios d))"
  proof -
    have ne: "?pool \<noteq> []"
      using p3 by (auto simp: pool_Nil participantes_Nil)
    define e where "e = ?escolhido"
    have "rnd mod length ?pool < length ?pool" using ne by simp
    then have "e \<in> set ?pool" unfolding e_def by (rule nth_mem)
    then have e: "e \<in> set (membros d)" "m_grupo_id e = grupo_id" "m_usuario_id e \<noteq> u_id cu"
      by (simp_all add: membros_do_grupo_def)
    then obtain amigo where "user_get d (m_usuario_id e) = Some amigo"
      using p4 by blast
    then have a: "user_get d (m_usuario_id ?escolhido) = Some amigo"
      by (simp only: e_def)
    from user_get_Some [OF a] have a': "amigo \<in> set (users d)" "u_id amigo = m_usuario_id e"
      by (simp_all only: e_def)
    have "?r = ?ok amigo"
      using c4 [OF p1 p2 p3] a p5 by simp
    then show ?thesis
      using a' e by (intro bexI [of _ amigo] bexI [of _ e]) simp_all
  qed
  show ?thesis
    using c1 c2 c3 c4 c5 mensagens_distintas by blast
qed

theorem ordem_das_verificacoes_witness:
  "realizar_sorteio_individual db_grupo (Some 4) 1 0 fonte_novo 9
     = (Json 403 (JObj [(''error'', JStr msg_nao_membro)]), db_grupo)
   \<and> realizar_sorteio_individual db_exemplo (Some 1) 1 0 fonte_novo 10
     = (Json 400 (JObj [(''error'', JStr msg_ja_sorteou),
                        (''redirect'', JStr (url_ver_meu_sorteio token_ana))]), db_exemplo)
   \<and> realizar_sorteio_individual db_grupo (Some 4) 2 0 fonte_novo 9
     = (Json 400 (JObj [(''error'', JStr msg_sem_participantes)]), db_grupo)
   \<and> realizar_sorteio_individual db_grupo (Some 1) 1 0 fonte_ana 9
     = (Json 200 (JObj [(''success'', JBool True),
                        (''amigo'', JObj [(''id'', JInt 2), (''nome'', JStr ''Bia''),
                                          (''email'', JStr ''bia@example.org'')]),
                        (''token'', JStr token_ana),
                        (''redirect'', JStr (url_ver_meu_sorteio token_ana))]),
        db_exemplo)"
proof -
  have davi: "current_user db_grupo (Some 4) = Some davi"
    by (simp add: current_user_def user_get_def exemplo_defs)
  have ana: "current_user db_exemplo (Some 1) = Some ana"
    by (simp add: current_user_def user_get_def exemplo_defs)
  have ana': "current_user db_grupo (Some 1) = Some ana"
    by (simp add: current_user_def user_get_def exemplo_defs)
  have g1: "grupo_get db_grupo 1 = Some natal" and g2: "grupo_get db_grupo 2 = Some sozinho"
    and g1': "grupo_get db_exemplo 1 = Some natal"
    by (simp_all add: grupo_get_def exemplo_defs)
  have fora: "\<forall>m\<in>set (membros db_grupo). \<not> (m_usuario_id m = u_id davi \<and> m_grupo_id m = 1)"
    by (simp add: exemplo_defs)
  have dentro2: "\<exists>m\<in>set (membros db_grupo). m_usuario_id m = u_id davi \<and> m_grupo_id m = 2"
    by (simp add: exemplo_defs)
  have dentro1: "\<exists>m\<in>set (membros db_exemplo). m_usuario_id m = u_id ana \<and> m_grupo_id m = 1"
    and dentro1': "\<exists>m\<in>set (membros db_grupo). m_usuario_id m = u_id ana \<and> m_grupo_id m = 1"
    by (simp_all add: exemplo_defs)
  have ja: "\<exists>s\<in>set (sorteios db_exemplo). s_usuario_id s = u_id ana \<and> s_grupo_id s = 1"
    by (simp add: exemplo_defs)
  have nunca2: "\<forall>s\<in>set (sorteios db_grupo). \<not> (s_usuario_id s = u_id davi \<and> s_grupo_id s = 2)"
    and nunca1: "\<forall>s\<in>set (sorteios db_grupo). \<not> (s_usuario_id s = u_id ana \<and> s_grupo_id s = 1)"
    by (simp_all add: exemplo_defs)
  have so: "\<forall>m\<in>set (membros db_grupo). m_grupo_id m = 2 \<longrightarrow> m_usuario_id m = u_id davi"
    by (simp add: exemplo_defs)
  have outros: "\<exists>m\<in>set (membros db_grupo). m_grupo_id m = 1 \<and> m_usuario_id m \<noteq> u_id ana"
    by (simp add: exemplo_defs)
  have r1: "realizar_sorteio_individual db_grupo (Some 4) 1 0 fonte_novo 9
              = (Json 403 (JObj [(''error'', JStr msg_nao_membro)]), db_grupo)"
    using ordem_das_verificacoes [OF davi g1, of 0 fonte_novo 9] fora by blast
  have "\<exists>s\<in>set (sorteios db_exemplo). s_usuario_id s = u_id ana \<and> s_grupo_id s = 1 \<and>
           realizar_sorteio_individual db_exemplo (Some 1) 1 0 fonte_novo 10
             = (Json 400 (JObj [(''error'', JStr msg_ja_sorteou),
                                (''redirect'', JStr (url_ver_meu_sorteio (s_token_acesso s)))]),
                db_exemplo)"
    using ordem_das_verificacoes [OF ana g1', of 0 fonte_novo 10] dentro1 ja by blast
  then have r2: "realizar_sorteio_individual db_exemplo (Some 1) 1 0 fonte_novo 10
     = (Json 400 (JObj [(''error'', JStr msg_ja_sorteou),
                        (''redirect'', JStr (url_ver_meu_sorteio token_ana))]), db_exemplo)"
    by (simp add: db_exemplo_def sorteio_ana_def url_ver_meu_sorteio_def)
  have r3: "realizar_sorteio_individual db_grupo (Some 4) 2 0 fonte_novo 9
     = (Json 400 (JObj [(''error'', JStr msg_sem_participantes)]), db_grupo)"
    using ordem_das_verificacoes [OF davi g2, of 0 fonte_novo 9] dentro2 nunca2 so by blast
  have pool: "filter (\<lambda>m. m_usuario_id m \<noteq> u_id ana) (membros_do_grupo db_grupo 1)
                = [\<lparr>m_id = 2, m_usuario_id = 2, m_grupo_id = 1, m_data_ingresso = 6\<rparr>,
                   \<lparr>m_id = 3, m_usuario_id = 3, m_grupo_id = 1, m_data_ingresso = 7\<rparr>]"
    by (simp add: membros_do_grupo_def exemplo_defs)
  have bia: "user_get db_grupo 2 = Some bia"
    by (simp add: user_get_def exemplo_defs)
  have livre: "token_urlsafe 32 fonte_ana \<notin> set (map s_token_acesso (sorteios db_grupo))"
    by (simp add: exemplo_defs)
  have "case user_get db_grupo (m_usuario_id
                (filter (\<lambda>m. m_usuario_id m \<noteq> u_id ana) (membros_do_grupo db_grupo 1)
                   ! (0 mod length (filter (\<lambda>m. m_usuario_id m \<noteq> u_id ana)
                                        (membros_do_grupo db_grupo 1))))) of
           None \<Rightarrow>
             realizar_sorteio_individual db_grupo (Some 1) 1 0 fonte_ana 9 = (Server_error, db_grupo)
         | Some amigo \<Rightarrow>
             if token_urlsafe 32 fonte_ana \<in> set (map s_token_acesso (sorteios db_grupo))
             then realizar_sorteio_individual db_grupo (Some 1) 1 0 fonte_ana 9
                    = (Server_error, db_grupo)
             else realizar_sorteio_individual db_grupo (Some 1) 1 0 fonte_ana 9
                = (Json 200 (JObj [(''success'', JBool True),
                                   (''amigo'', JObj [(''id'', JInt (u_id amigo)),
                                                     (''nome'', JStr (u_nome amigo)),
                                                     (''email'', JStr (u_email amigo))]),
                                   (''token'', JStr (token_urlsafe 32 fonte_ana)),
                                   (''redirect'',
                                      JStr (url_ver_meu_sorteio (token_urlsafe 32 fonte_ana)))]),
                   db_grupo\<lparr>sorteios := sorteios db_grupo @
                       [\<lparr>s_id = next_id (map s_id (sorteios db_grupo)),
                         s_usuario_id = u_id ana,
                         s_grupo_id = 1,
                         s_amigo_sorteado_id = u_id amigo,
                         s_data_sorteio = 9,
                         s_ultima_visualizacao = None,
                         s_vezes_visualizado = 0,
                         s_token_acesso = token_urlsafe 32 fonte_ana\<rparr>]\<rparr>)"
    using ordem_das_verificacoes [OF ana' g1, of 0 fonte_ana 9] dentro1' nunca1 outros by blast
  then have "realizar_sorteio_individual db_grupo (Some 1) 1 0 fonte_ana 9
                = (Json 200 (JObj [(''success'', JBool True),
                                   (''amigo'', JObj [(''id'', JInt (u_id bia)),
                                                     (''nome'', JStr (u_nome bia)),
                                                     (''email'', JStr (u_email bia))]),
                                   (''token'', JStr (token_urlsafe 32 fonte_ana)),
                                   (''redirect'',
                                      JStr (url_ver_meu_sorteio (token_urlsafe 32 fonte_ana)))]),
                   db_grupo\<lparr>sorteios := sorteios db_grupo @
                       [\<lparr>s_id = next_id (map s_id (sorteios db_grupo)),
                         s_usuario_id = u_id ana,
                         s_grupo_id = 1,
                         s_amigo_sorteado_id = u_id bia,
                         s_data_sorteio = 9,
                         s_ultima_visualizacao = None,
                         s_vezes_visualizado = 0,
                         s_token_acesso = token_urlsafe 32 fonte_ana\<rparr>]\<rparr>)"
    unfolding pool using bia livre by simp
  then have r4: "realizar_sorteio_individual db_grupo (Some 1) 1 0 fonte_ana 9
     = (Json 200 (JObj [(''success'', JBool True),
                        (''amigo'', JObj [(''id'', JInt 2), (''nome'', JStr ''Bia''),
                                          (''email'', JStr ''bia@example.org'')]),
                        (''token'', JStr token_ana),
                        (''redirect'', JStr (url_ver_meu_sorteio token_ana))]),
        db_exemplo)"
    by (simp add: tokens_do_exemplo next_id_def db_exemplo_def sorteio_ana_def db_grupo_def
          ana_def bia_def)
  show ?thesis
    using r1 r2 r3 r4 by blast
qed










text \<open>
  Claim C8. In a reachable database, for a logged-in user and an existing group,
  \<^verbatim>\<open>api_status_sorteio\<close> answers 403 to anyone but the group's admin, and to the admin
  a 200 JSON whose \<^verbatim>\<open>membros\<close> list has one entry per membership row of the group, in
  order (members are pairwise different users): the entry of a member without a draw in
  the group has \<^verbatim>\<open>ja_sorteou\<close> false and null \<^verbatim>\<open>data_sorteio\<close> and
  \<^verbatim>\<open>amigo_sorteado\<close>; the entry of a member with a draw has \<^verbatim>\<open>ja_sorteou\<close> true,
  that draw's date and the name of its recipient. Either way the database is returned
  unchanged. In the run of three members of whom one has drawn, the list has three
  entries and exactly the first has \<^verbatim>\<open>ja_sorteou\<close> true and a recipient name.
\<close>

theorem status_sorteio_so_para_admin:
  assumes "reachable t d" and "current_user d session = Some cu"
    and "grupo_get d grupo_id = Some grupo"
  shows
    "(g_admin_id grupo \<noteq> u_id cu \<longrightarrow>
        api_status_sorteio d session grupo_id
          = (Json 403 (JObj [(''error'', JStr msg_apenas_admin)]), d))
     \<and> (g_admin_id grupo = u_id cu \<longrightarrow>
        (\<exists>ms. api_status_sorteio d session grupo_id
                 = (Json 200
                      (JObj [(''grupo'',
                                JObj [(''id'', JInt grupo_id),
                                      (''nome'', JStr (g_nome grupo)),
                                      (''total_membros'',
                                         JInt (int (length (membros_do_grupo d grupo_id))))]),
                             (''membros'', JArr ms)]),
                    d)
             \<and> list_all2
                 (\<lambda>m e. \<exists>u. user_get d (m_usuario_id m) = Some u \<and>
                    ((\<forall>s\<in>set (sorteios d).
                         \<not> (s_usuario_id s = m_usuario_id m \<and> s_grupo_id s = grupo_id))
                       \<and> e = JObj [(''id'', JInt (m_id m)),
                                   (''usuario_id'', JInt (m_usuario_id m)),
                                   (''nome'', JStr (u_nome u)),
                                   (''email'', JStr (u_email u)),
                                   (''ja_sorteou'', JBool False),
                                   (''data_sorteio'', JNull),
                                   (''amigo_sorteado'', JNull)]
                     \<or> (\<exists>s\<in>set (sorteios d). \<exists>a.
                           s_usuario_id s = m_usuario_id m \<and> s_grupo_id s = grupo_id
                           \<and> user_get d (s_amigo_sorteado_id s) = Some a
                           \<and> e = JObj [(''id'', JInt (m_id m)),
                                       (''usuario_id'', JInt (m_usuario_id m)),
                                       (''nome'', JStr (u_nome u)),
                                       (''email'', JStr (u_email u)),
                                       (''ja_sorteou'', JBool True),
                                       (''data_sorteio'', JIso (s_data_sorteio s)),
                                       (''amigo_sorteado'', JStr (u_nome a))])))
                 (membros_do_grupo d grupo_id) ms
             \<and> distinct (map m_usuario_id (membros_do_grupo d grupo_id))))"
proof -
  let ?R = "\<lambda>m e. \<exists>u. user_get d (m_usuario_id m) = Some u \<and>
                    ((\<forall>s\<in>set (sorteios d).
                         \<not> (s_usuario_id s = m_usuario_id m \<and> s_grupo_id s = grupo_id))
                       \<and> e = JObj [(''id'', JInt (m_id m)),
                                   (''usuario_id'', JInt (m_usuario_id m)),
                                   (''nome'', JStr (u_nome u)),
                                   (''email'', JStr (u_email u)),
                                   (''ja_sorteou'', JBool False),
                                   (''data_sorteio'', JNull),
                                   (''amigo_sorteado'', JNull)]
                     \<or> (\<exists>s\<in>set (sorteios d). \<exists>a.
                           s_usuario_id s = m_usuario_id m \<and> s_grupo_id s = grupo_id
                           \<and> user_get d (s_amigo_sorteado_id s) = Some a
                           \<and> e = JObj [(''id'', JInt (m_id m)),
                                       (''usuario_id'', JInt (m_usuario_id m)),
                                       (''nome'', JStr (u_nome u)),
                                       (''email'', JStr (u_email u)),
                                       (''ja_sorteou'', JBool True),
                                       (''data_sorteio'', JIso (s_data_sorteio s)),
                                       (''amigo_sorteado'', JStr (u_nome a))]))"
  let ?f = "\<lambda>m. the (membro_json d (status_do_membro d grupo m))"
  let ?ms = "membros_do_grupo d grupo_id"
  note inv = reachable_invariante [OF assms(1)]
  have gid: "g_id grupo = grupo_id"
    using assms(3) by (auto simp: grupo_get_def find_Some_iff)
  have usr: "\<exists>u. user_get d (m_usuario_id m) = Some u" if "m \<in> set ?ms" for m
  proof -
    have "m \<in> set (membros d)" using that by (simp add: membros_do_grupo_def)
    then have "membro_ok d m" using inv by (simp add: invariante_def list_all_iff)
    then show ?thesis by (auto simp: membro_ok_def)
  qed
  have rel: "?R m (?f m)" if m: "m \<in> set ?ms" for m
  proof -
    obtain u where u: "user_get d (m_usuario_id m) = Some u"
      using usr [OF m] by blast
    note js = membro_json_status [OF u, of grupo, unfolded gid]
    show ?thesis
    proof (cases "sorteio_query d (m_usuario_id m) grupo_id")
      case None
      then have "\<forall>s\<in>set (sorteios d). \<not> (s_usuario_id s = m_usuario_id m \<and> s_grupo_id s = grupo_id)"
        by (simp add: sorteio_query_def find_None_ball)
      then show ?thesis
        using u js None by simp
    next
      case (Some s)
      from sorteio_query_Some [OF Some]
      have s: "s \<in> set (sorteios d)" "s_usuario_id s = m_usuario_id m" "s_grupo_id s = grupo_id"
        by simp_all
      have "sorteio_ok t d s" using assms(1) s(1) by (rule reachable_sorteio_ok)
      then obtain a where a: "user_get d (s_amigo_sorteado_id s) = Some a"
        by (auto simp: sorteio_ok_def)
      have "?f m = JObj [(''id'', JInt (m_id m)),
                         (''usuario_id'', JInt (m_usuario_id m)),
                         (''nome'', JStr (u_nome u)),
                         (''email'', JStr (u_email u)),
                         (''ja_sorteou'', JBool True),
                         (''data_sorteio'', JIso (s_data_sorteio s)),
                         (''amigo_sorteado'', JStr (u_nome a))]"
        using js Some a by simp
      then show ?thesis
        using u s a by blast
    qed
  qed
  have all2: "list_all2 ?R ?ms (map ?f ?ms)"
    unfolding list_all2_map2 list_all2_same using rel by blast
  have "\<forall>m\<in>set ?ms. membro_json d (status_do_membro d grupo m) \<noteq> None"
    using usr membro_json_status by fastforce
  from those_map_Some [OF this]
  have th: "those (map (membro_json d) (status_sorteio_membros d grupo)) = Some (map ?f ?ms)"
    by (simp add: status_sorteio_membros_def gid comp_def)
  have len: "length (status_sorteio_membros d grupo) = length ?ms"
    by (simp add: status_sorteio_membros_def gid)
  have dist: "distinct (map m_usuario_id ?ms)"
    using inv by (intro membros_do_grupo_distinct) (simp add: invariante_def)
  have ok: "api_status_sorteio d session grupo_id
                 = (Json 200
                      (JObj [(''grupo'',
                                JObj [(''id'', JInt grupo_id),
                                      (''nome'', JStr (g_nome grupo)),
                                      (''total_membros'', JInt (int (length ?ms)))]),
                             (''membros'', JArr (map ?f ?ms))]),
                    d)"
    if "g_admin_id grupo = u_id cu"
    using assms(2,3) that th len gid by (simp add: api_status_sorteio_def Let_def)
  have no: "api_status_sorteio d session grupo_id
              = (Json 403 (JObj [(''error'', JStr msg_apenas_admin)]), d)"
    if "g_admin_id grupo \<noteq> u_id cu"
    using assms(2,3) that by (simp add: api_status_sorteio_def)
  show ?thesis
    using ok no all2 dist by blast
qed

theorem status_sorteio_so_para_admin_witness:
  "current_user db_exemplo (Some 2) = Some bia
   \<and> grupo_get db_exemplo 1 = Some natal
   \<and> g_admin_id natal = 1
   \<and> api_status_sorteio db_exemplo (Some 2) 1
        = (Json 403 (JObj [(''error'', JStr msg_apenas_admin)]), db_exemplo)
   \<and> current_user db_exemplo (Some 1) = Some ana
   \<and> map m_usuario_id (membros_do_grupo db_exemplo 1) = [1, 2, 3]
   \<and> map s_usuario_id (sorteios db_exemplo) = [1]
   \<and> api_status_sorteio db_exemplo (Some 1) 1
     = (Json 200
          (JObj [(''grupo'', JObj [(''id'', JInt 1), (''nome'', JStr ''Natal''),
                                   (''total_membros'', JInt 3)]),
                 (''membros'',
                    JArr [JObj [(''id'', JInt 1), (''usuario_id'', JInt 1),
                                (''nome'', JStr ''Ana''), (''email'', JStr ''ana@example.org''),
                                (''ja_sorteou'', JBool True), (''data_sorteio'', JIso 9),
                                (''amigo_sorteado'', JStr ''Bia'')],
                          JObj [(''id'', JInt 2), (''usuario_id'', JInt 2),
                                (''nome'', JStr ''Bia''), (''email'', JStr ''bia@example.org''),
                                (''ja_sorteou'', JBool False), (''data_sorteio'', JNull),
                                (''amigo_sorteado'', JNull)],
                          JObj [(''id'', JInt 3), (''usuario_id'', JInt 3),
                                (''nome'', JStr ''Caio''), (''email'', JStr ''caio@example.org''),
                                (''ja_sorteou'', JBool False), (''data_sorteio'', JNull),
                                (''amigo_sorteado'', JNull)]])]),
        db_exemplo)"
proof -
  have b: "current_user db_exemplo (Some 2) = Some bia"
    and a: "current_user db_exemplo (Some 1) = Some ana"
    by (simp_all add: current_user_def user_get_def exemplo_defs)
  have g: "grupo_get db_exemplo 1 = Some natal"
    by (simp add: grupo_get_def exemplo_defs)
  have adm: "g_admin_id natal = 1" and nb: "g_admin_id natal \<noteq> u_id bia"
    by (simp_all add: exemplo_defs)
  have ms: "map m_usuario_id (membros_do_grupo db_exemplo 1) = [1, 2, 3]"
    and ss: "map s_usuario_id (sorteios db_exemplo) = [1]"
    by (simp_all add: membros_do_grupo_def exemplo_defs)
  have r1: "api_status_sorteio db_exemplo (Some 2) 1
              = (Json 403 (JObj [(''error'', JStr msg_apenas_admin)]), db_exemplo)"
    using status_sorteio_so_para_admin [OF reachable_db_exemplo b g] nb by blast
  show ?thesis
    using b g adm r1 a ms ss api_status_db_exemplo by blast
qed

text \<open>
  Claim C9. When the draw that the token resolves to belongs to another user than the
  one logged in, \<^verbatim>\<open>ver_meu_sorteio\<close> answers with the access-denied redirect and
  returns the database it was given: no row changes, so neither
  \<^verbatim>\<open>vezes_visualizado\<close> nor \<^verbatim>\<open>ultima_visualizacao\<close> of the draw does.
\<close>

theorem negado_nao_registra:
  assumes "sorteio_by_token d token = Some sorteio"
    and "current_user d session = Some cu"
    and "s_usuario_id sorteio \<noteq> u_id cu"
  shows "ver_meu_sorteio d session token now
           = (Redirect url_dashboard (Some (msg_sorteio_nao_e_seu, ''error'')), d)"
  using assms by (simp add: ver_meu_sorteio_def)

theorem negado_nao_registra_witness:
  "sorteio_by_token db_exemplo token_ana = Some sorteio_ana
   \<and> current_user db_exemplo (Some 2) = Some bia
   \<and> s_usuario_id sorteio_ana \<noteq> u_id bia
   \<and> ver_meu_sorteio db_exemplo (Some 2) token_ana 10
        = (Redirect url_dashboard (Some (msg_sorteio_nao_e_seu, ''error'')), db_exemplo)
   \<and> sorteios db_exemplo = [sorteio_ana]
   \<and> s_vezes_visualizado sorteio_ana = 0
   \<and> s_ultima_visualizacao sorteio_ana = None"
proof -
  have a: "sorteio_by_token db_exemplo token_ana = Some sorteio_ana"
    by (simp add: sorteio_by_token_def exemplo_defs)
  have b: "current_user db_exemplo (Some 2) = Some bia"
    by (simp add: current_user_def user_get_def exemplo_defs)
  have c: "s_usuario_id sorteio_ana \<noteq> u_id bia"
    by (simp add: exemplo_defs)
  show ?thesis
    using a b c negado_nao_registra [OF a b c, of 10]
    by (simp add: db_exemplo_def sorteio_ana_def)
qed

text \<open>
  Claim C10. When the logged-in user is the admin of an existing group and has no
  membership row in it, \<^verbatim>\<open>realizar_sorteio_individual\<close> answers 403 with the
  not-a-member message and writes nothing, while \<^verbatim>\<open>ver_grupo\<close> renders the group
  page for the same user, member status list included.
\<close>

theorem admin_nao_membro_nao_sorteia:
  assumes "current_user d session = Some cu"
    and "grupo_get d grupo_id = Some grupo"
    and "g_admin_id grupo = u_id cu"
    and "\<forall>m\<in>set (membros d). \<not> (m_usuario_id m = u_id cu \<and> m_grupo_id m = grupo_id)"
  shows "realizar_sorteio_individual d session grupo_id rnd fonte now
           = (Json 403 (JObj [(''error'', JStr msg_nao_membro)]), d)
         \<and> ver_grupo d session grupo_id
           = (Render_grupo grupo
                (membros_do_grupo d grupo_id)
                (filter (\<lambda>sg. sg_grupo_id sg = grupo_id) (sugestoes d))
                (usuario_ja_sorteou d grupo (u_id cu))
                (amigo_do_usuario d grupo (u_id cu))
                (status_sorteio_membros d grupo),
              d)"
proof -
  have "membro_query d (u_id cu) grupo_id = None"
    using assms(4) by (simp add: membro_query_def find_None_ball)
  then show ?thesis
    using assms(1,2,3) by (simp add: realizar_sorteio_individual_def ver_grupo_def)
qed

theorem admin_nao_membro_nao_sorteia_witness:
  "current_user db_admin_fora (Some 1) = Some ana
   \<and> grupo_get db_admin_fora 1 = Some natal
   \<and> g_admin_id natal = u_id ana
   \<and> u_id ana = 1
   \<and> map (\<lambda>m. (m_usuario_id m, m_grupo_id m)) (membros db_admin_fora) = [(2, 1), (3, 1), (4, 2)]
   \<and> realizar_sorteio_individual db_admin_fora (Some 1) 1 0 fonte_ana 9
        = (Json 403 (JObj [(''error'', JStr msg_nao_membro)]), db_admin_fora)
   \<and> ver_grupo db_admin_fora (Some 1) 1
        = (Render_grupo natal
             [\<lparr>m_id = 2, m_usuario_id = 2, m_grupo_id = 1, m_data_ingresso = 6\<rparr>,
              \<lparr>m_id = 3, m_usuario_id = 3, m_grupo_id = 1, m_data_ingresso = 7\<rparr>]
             [] False None
             [\<lparr>st_membro = \<lparr>m_id = 2, m_usuario_id = 2, m_grupo_id = 1, m_data_ingresso = 6\<rparr>,
               st_ja_sorteou = False, st_data_sorteio = None, st_amigo_sorteado = None\<rparr>,
              \<lparr>st_membro = \<lparr>m_id = 3, m_usuario_id = 3, m_grupo_id = 1, m_data_ingresso = 7\<rparr>,
               st_ja_sorteou = False, st_data_sorteio = None, st_amigo_sorteado = None\<rparr>],
           db_admin_fora)"
proof -
  have a: "current_user db_admin_fora (Some 1) = Some ana"
    by (simp add: current_user_def user_get_def exemplo_defs)
  have b: "grupo_get db_admin_fora 1 = Some natal"
    by (simp add: grupo_get_def exemplo_defs)
  have c: "g_admin_id natal = u_id ana"
    by (simp add: exemplo_defs)
  have e: "\<forall>m\<in>set (membros db_admin_fora). \<not> (m_usuario_id m = u_id ana \<and> m_grupo_id m = 1)"
    by (simp add: exemplo_defs)
  have f: "membros_do_grupo db_admin_fora 1
             = [\<lparr>m_id = 2, m_usuario_id = 2, m_grupo_id = 1, m_data_ingresso = 6\<rparr>,
                \<lparr>m_id = 3, m_usuario_id = 3, m_grupo_id = 1, m_data_ingresso = 7\<rparr>]"
    by (simp add: membros_do_grupo_def exemplo_defs)
  have g: "status_sorteio_membros db_admin_fora natal
             = [\<lparr>st_membro = \<lparr>m_id = 2, m_usuario_id = 2, m_grupo_id = 1, m_data_ingresso = 6\<rparr>,
                 st_ja_sorteou = False, st_data_sorteio = None, st_amigo_sorteado = None\<rparr>,
                \<lparr>st_membro = \<lparr>m_id = 3, m_usuario_id = 3, m_grupo_id = 1, m_data_ingresso = 7\<rparr>,
                 st_ja_sorteou = False, st_data_sorteio = None, st_amigo_sorteado = None\<rparr>]"
    by (simp add: status_sorteio_membros_def status_do_membro_def sorteio_query_def
          membros_do_grupo_def exemplo_defs)
  have h: "usuario_ja_sorteou db_admin_fora natal (u_id ana) = False"
    "amigo_do_usuario db_admin_fora natal (u_id ana) = None"
    "filter (\<lambda>sg. sg_grupo_id sg = 1) (sugestoes db_admin_fora) = []"
    by (simp_all add: usuario_ja_sorteou_def amigo_do_usuario_def sorteio_query_def exemplo_defs)
  have i: "u_id ana = 1"
    "map (\<lambda>m. (m_usuario_id m, m_grupo_id m)) (membros db_admin_fora) = [(2, 1), (3, 1), (4, 2)]"
    by (simp_all add: exemplo_defs)
  have r: "realizar_sorteio_individual db_admin_fora (Some 1) 1 0 fonte_ana 9
        = (Json 403 (JObj [(''error'', JStr msg_nao_membro)]), db_admin_fora)
   \<and> ver_grupo db_admin_fora (Some 1) 1
        = (Render_grupo natal
             [\<lparr>m_id = 2, m_usuario_id = 2, m_grupo_id = 1, m_data_ingresso = 6\<rparr>,
              \<lparr>m_id = 3, m_usuario_id = 3, m_grupo_id = 1, m_data_ingresso = 7\<rparr>]
             [] False None
             [\<lparr>st_membro = \<lparr>m_id = 2, m_usuario_id = 2, m_grupo_id = 1, m_data_ingresso = 6\<rparr>,
               st_ja_sorteou = False, st_data_sorteio = None, st_amigo_sorteado = None\<rparr>,
              \<lparr>st_membro = \<lparr>m_id = 3, m_usuario_id = 3, m_grupo_id = 1, m_data_ingresso = 7\<rparr>,
               st_ja_sorteou = False, st_data_sorteio = None, st_amigo_sorteado = None\<rparr>],
           db_admin_fora)"
    using admin_nao_membro_nao_sorteia [OF a b c e, of 0 fonte_ana 9]
    by (simp only: f g h)
  show ?thesis
    using a b c i r by blast
qed

end
